theory Spec2Isabelle
  imports Complex_Main
begin

section \<open>Scalars, tensors and errors\<close>

text \<open>
  The program is \<^verbatim>\<open>train_psgd_dp.py\<close>: projected SGD with differential privacy.
  This theory embeds the gradient pipeline of that file: the parameter vectorizer
  (\<^verbatim>\<open>get_model_param_vec\<close>, \<^verbatim>\<open>get_model_grad_vec\<close>, \<^verbatim>\<open>update_grad\<close>,
  \<^verbatim>\<open>update_param\<close>), the two clipping kernels (\<^verbatim>\<open>clip_column\<close>,
  \<^verbatim>\<open>inplace_clipping\<close>) and the step \<^verbatim>\<open>P_SGD_DP\<close>.

  A scalar of a tensor is a real number or one of the three special values of IEEE
  arithmetic. Finite values are computed exactly (rounding is modelled only for the
  single precision kernels of the section on clipping); the special
  values follow IEEE 754, because the code relies on them: it divides by a norm that may
  be zero. Zeros carry no sign: on finite entries, every division by zero the embedded code performs either
  has a zero numerator (the result is NaN whatever the signs) or divides by a norm, which
  is a positive zero, or produces an infinity that is used only as a divisor.
\<close>

datatype fl = Fin real | PInf | NInf | NaN

datatype error = RuntimeError | ValueError | ZeroDivisionError | TypeError

fun fl_add :: "fl \<Rightarrow> fl \<Rightarrow> fl" where
  "fl_add (Fin a) (Fin b) = Fin (a + b)"
| "fl_add NaN y = NaN"
| "fl_add x NaN = NaN"
| "fl_add PInf NInf = NaN"
| "fl_add NInf PInf = NaN"
| "fl_add PInf y = PInf"
| "fl_add x PInf = PInf"
| "fl_add NInf y = NInf"
| "fl_add x NInf = NInf"

text \<open>An infinity with the sign of a non-zero real, NaN at zero.\<close>

definition signed_inf :: "real \<Rightarrow> fl" where
  "signed_inf a = (if a > 0 then PInf else if a < 0 then NInf else NaN)"

fun fl_mul :: "fl \<Rightarrow> fl \<Rightarrow> fl" where
  "fl_mul (Fin a) (Fin b) = Fin (a * b)"
| "fl_mul NaN y = NaN"
| "fl_mul x NaN = NaN"
| "fl_mul PInf (Fin b) = signed_inf b"
| "fl_mul NInf (Fin b) = signed_inf (- b)"
| "fl_mul (Fin a) PInf = signed_inf a"
| "fl_mul (Fin a) NInf = signed_inf (- a)"
| "fl_mul PInf PInf = PInf"
| "fl_mul NInf NInf = PInf"
| "fl_mul PInf NInf = NInf"
| "fl_mul NInf PInf = NInf"

text \<open>
  Division: a finite non-zero value over zero is an infinity of the numerator's sign,
  zero over zero is NaN, a finite value over an infinity is zero, an infinity over an
  infinity is NaN.
\<close>

fun fl_div :: "fl \<Rightarrow> fl \<Rightarrow> fl" where
  "fl_div (Fin a) (Fin b) = (if b = 0 then signed_inf a else Fin (a / b))"
| "fl_div NaN y = NaN"
| "fl_div x NaN = NaN"
| "fl_div (Fin a) PInf = Fin 0"
| "fl_div (Fin a) NInf = Fin 0"
| "fl_div PInf (Fin b) = (if b < 0 then NInf else PInf)"
| "fl_div NInf (Fin b) = (if b < 0 then PInf else NInf)"
| "fl_div PInf y = NaN"
| "fl_div NInf y = NaN"

definition fl_sqrt :: "fl \<Rightarrow> fl" where
  "fl_sqrt x = (case x of Fin a \<Rightarrow> (if a < 0 then NaN else Fin (sqrt a))
                | PInf \<Rightarrow> PInf | NInf \<Rightarrow> NaN | NaN \<Rightarrow> NaN)"

text \<open>The comparison \<^verbatim>\<open>x > y\<close>: false as soon as one side is NaN.\<close>

fun fl_gt :: "fl \<Rightarrow> fl \<Rightarrow> bool" where
  "fl_gt (Fin a) (Fin b) = (a > b)"
| "fl_gt NaN y = False"
| "fl_gt x NaN = False"
| "fl_gt PInf PInf = False"
| "fl_gt PInf y = True"
| "fl_gt x PInf = False"
| "fl_gt NInf y = False"
| "fl_gt x NInf = True"

definition fl_sum :: "fl list \<Rightarrow> fl" where
  "fl_sum xs = foldr fl_add xs (Fin 0)"

text \<open>\<^verbatim>\<open>torch.clamp(x, max=m)\<close> on one scalar: the smaller of the two, and NaN stays NaN.\<close>

definition clamp_max :: "fl \<Rightarrow> real \<Rightarrow> fl" where
  "clamp_max x m = (if x = NaN then NaN else if fl_gt x (Fin m) then Fin m else x)"

text \<open>
  A tensor of any rank is its shape and its elements in row-major order, as
  \<^verbatim>\<open>reshape(-1)\<close> lists them; torch keeps \<open>length elems = numel shape\<close>. A parameter
  of the model has a name, its values (\<^verbatim>\<open>param.data\<close>) and its gradient storage
  (\<^verbatim>\<open>param.grad\<close>, which the backward pass has filled before the step runs). The model
  is the list \<^verbatim>\<open>model.named_parameters()\<close> iterates, in that order.
\<close>

record tensor =
  shape :: "nat list"
  elems :: "fl list"

record param =
  p_name :: string
  p_data :: tensor
  p_grad :: tensor

type_synonym model = "param list"

text \<open>
  The element count of a shape, as \<^verbatim>\<open>update_grad\<close> and \<^verbatim>\<open>update_param\<close> compute it:
  \<^verbatim>\<open>size = 1; for i in range(len(list(arr_shape))): size *= arr_shape[i]\<close>.
\<close>

fun numel_loop :: "nat \<Rightarrow> nat list \<Rightarrow> nat" where
  "numel_loop size' [] = size'"
| "numel_loop size' (d # ds) = numel_loop (size' * d) ds"

definition numel :: "nat list \<Rightarrow> nat" where
  "numel arr_shape = numel_loop 1 arr_shape"

definition wf_tensor :: "tensor \<Rightarrow> bool" where
  "wf_tensor t = (length (elems t) = numel (shape t))"

text \<open>
  The invariant torch keeps for every parameter: values and gradient are well-formed
  tensors of the same shape.
\<close>

definition wf_param :: "param \<Rightarrow> bool" where
  "wf_param p = (wf_tensor (p_data p) \<and> wf_tensor (p_grad p) \<and> shape (p_grad p) = shape (p_data p))"

definition wf_model :: "model \<Rightarrow> bool" where
  "wf_model m = list_all wf_param m"

text \<open>The sum of the element counts of the declared parameter shapes.\<close>

definition param_count :: "model \<Rightarrow> nat" where
  "param_count m = sum_list (map (\<lambda>p. numel (shape (p_data p))) m)"

section \<open>The parameter vectorizer\<close>

text \<open>
  \<^verbatim>\<open>get_model_param_vec\<close> appends \<^verbatim>\<open>param...reshape(-1)\<close> for every parameter and
  returns \<^verbatim>\<open>np.concatenate(vec, 0)\<close>, which raises ValueError on an empty list.
  \<^verbatim>\<open>get_model_grad_vec\<close> does the same on \<^verbatim>\<open>param.grad\<close> with \<^verbatim>\<open>torch.cat\<close>, which
  raises RuntimeError on an empty list.

  The two functions return different containers: \<^verbatim>\<open>get_model_param_vec\<close> a
  \<^verbatim>\<open>numpy.ndarray\<close>, \<^verbatim>\<open>get_model_grad_vec\<close> a torch tensor. The container decides
  what \<^verbatim>\<open>update_param\<close> does with a vector, so the vectors of
  \<^verbatim>\<open>get_model_param_vec\<close> and \<^verbatim>\<open>update_param\<close> carry it. The vectors of
  \<^verbatim>\<open>get_model_grad_vec\<close> and \<^verbatim>\<open>update_grad\<close> are torch tensors throughout (the
  result of \<^verbatim>\<open>torch.cat\<close>, and \<^verbatim>\<open>noisy_grad\<close> in the step) and are written as the
  list of their scalars. The device of a vector is not modelled.
\<close>

datatype vector = NdArray "fl list" | TorchTensor "fl list"

definition scalars :: "vector \<Rightarrow> fl list" where
  "scalars v = (case v of NdArray xs \<Rightarrow> xs | TorchTensor xs \<Rightarrow> xs)"

definition get_model_param_vec :: "model \<Rightarrow> error + vector" where
  "get_model_param_vec m =
     (let vec = map (\<lambda>param. elems (p_data param)) m
      in if vec = [] then Inl ValueError else Inr (NdArray (concat vec)))"

definition get_model_grad_vec :: "model \<Rightarrow> error + fl list" where
  "get_model_grad_vec m =
     (let vec = map (\<lambda>param. elems (p_grad param)) m
      in if vec = [] then Inl RuntimeError else Inr (concat vec))"

text \<open>
  \<^verbatim>\<open>update_grad\<close>: the loop over the parameters, with the running offset \<open>idx\<close>.
  The slice \<^verbatim>\<open>grad_vec[idx:idx+size]\<close> is cut off at the end of the vector, as Python
  slices are; \<^verbatim>\<open>reshape(arr_shape)\<close> raises RuntimeError when the slice does not hold
  exactly \<open>size\<close> elements. The shape is read from the gradient already stored.
\<close>

fun update_grad_loop :: "param list \<Rightarrow> fl list \<Rightarrow> nat \<Rightarrow> error + param list" where
  "update_grad_loop [] grad_vec idx = Inr []"
| "update_grad_loop (param # rest) grad_vec idx =
     (let arr_shape = shape (p_grad param);
          size' = numel arr_shape;
          slice = take size' (drop idx grad_vec)
      in if length slice \<noteq> size' then Inl RuntimeError
         else (case update_grad_loop rest grad_vec (idx + size') of
                 Inl e \<Rightarrow> Inl e
               | Inr rest' \<Rightarrow>
                   Inr (param\<lparr>p_grad := \<lparr>shape = arr_shape, elems = slice\<rparr>\<rparr> # rest')))"

definition update_grad :: "model \<Rightarrow> fl list \<Rightarrow> error + model" where
  "update_grad m grad_vec = update_grad_loop m grad_vec 0"

text \<open>
  \<^verbatim>\<open>update_param\<close> is the same loop on \<^verbatim>\<open>param.data\<close>, for a vector in either
  container. The slice \<^verbatim>\<open>param_vec[idx:idx+size].reshape(arr_shape)\<close> is evaluated
  first: on a slice that does not hold \<open>size\<close> elements, \<^verbatim>\<open>reshape\<close> raises ValueError
  for a numpy array and RuntimeError for a torch tensor. The assignment
  \<^verbatim>\<open>param.data = ...\<close> comes second: torch accepts only a tensor there, and raises
  TypeError for a numpy array.
\<close>

fun update_param_loop :: "param list \<Rightarrow> vector \<Rightarrow> nat \<Rightarrow> error + param list" where
  "update_param_loop [] param_vec idx = Inr []"
| "update_param_loop (param # rest) param_vec idx =
     (let arr_shape = shape (p_data param);
          size' = numel arr_shape;
          slice = take size' (drop idx (scalars param_vec))
      in if length slice \<noteq> size'
         then Inl (case param_vec of NdArray xs \<Rightarrow> ValueError | TorchTensor xs \<Rightarrow> RuntimeError)
         else (case param_vec of
                 NdArray xs \<Rightarrow> Inl TypeError
               | TorchTensor xs \<Rightarrow>
                   (case update_param_loop rest param_vec (idx + size') of
                      Inl e \<Rightarrow> Inl e
                    | Inr rest' \<Rightarrow>
                        Inr (param\<lparr>p_data := \<lparr>shape = arr_shape, elems = slice\<rparr>\<rparr> # rest'))))"

definition update_param :: "model \<Rightarrow> vector \<Rightarrow> error + model" where
  "update_param m param_vec = update_param_loop m param_vec 0"

section \<open>Matrices and reductions\<close>

text \<open>
  A two-dimensional tensor is the list of its rows. The width of a matrix with no rows
  is not represented, so the transpose reads the width off the first row.
\<close>

type_synonym matrix = "fl list list"

definition ncols :: "matrix \<Rightarrow> nat" where
  "ncols B = (case B of [] \<Rightarrow> 0 | b # _ \<Rightarrow> length b)"

text \<open>\<^verbatim>\<open>M.T\<close>\<close>

definition mat_T :: "matrix \<Rightarrow> matrix" where
  "mat_T M = map (\<lambda>j. map (\<lambda>row. row ! j) M) [0..<ncols M]"

text \<open>
  \<^verbatim>\<open>torch.matmul(A, B)\<close> on two-dimensional tensors: RuntimeError unless every row
  of \<open>A\<close> is as long as \<open>B\<close> has rows. A matrix \<open>A\<close> with no rows is taken to have
  the width that fits.
\<close>

definition matmul :: "matrix \<Rightarrow> matrix \<Rightarrow> error + matrix" where
  "matmul A B =
     (if list_all (\<lambda>a. length a = length B) A
      then Inr (map (\<lambda>a. map (\<lambda>j. fl_sum (map2 (\<lambda>x b. fl_mul x (b ! j)) a B)) [0..<ncols B]) A)
      else Inl RuntimeError)"

text \<open>\<^verbatim>\<open>torch.norm(tsr, dim=1)\<close>: the L2 norm of every row.\<close>

definition norm_dim1 :: "matrix \<Rightarrow> fl list" where
  "norm_dim1 tsr = map (\<lambda>row. fl_sqrt (fl_sum (map (\<lambda>x. fl_mul x x) row))) tsr"

text \<open>\<^verbatim>\<open>torch.sum(M, dim=0)\<close>: the sum of every column.\<close>

definition sum_dim0 :: "matrix \<Rightarrow> fl list" where
  "sum_dim0 M = map (\<lambda>j. fl_sum (map (\<lambda>row. row ! j) M)) [0..<ncols M]"

text \<open>
  The three reductions of the diagnostics. \<^verbatim>\<open>torch.mean\<close> of an empty vector is NaN
  (zero over zero); \<^verbatim>\<open>torch.max\<close> of an empty vector raises RuntimeError; both
  \<^verbatim>\<open>torch.max\<close> and \<^verbatim>\<open>torch.median\<close> return NaN when an element is NaN, and the
  median of an even number of elements is the lower of the two middle ones.
\<close>

definition torch_mean :: "fl list \<Rightarrow> fl" where
  "torch_mean xs = fl_div (fl_sum xs) (Fin (real (length xs)))"

definition fl_max :: "fl \<Rightarrow> fl \<Rightarrow> fl" where
  "fl_max a b = (if a = NaN \<or> b = NaN then NaN else if fl_gt b a then b else a)"

definition torch_max :: "fl list \<Rightarrow> error + fl" where
  "torch_max xs = (case xs of [] \<Rightarrow> Inl RuntimeError | x # rest \<Rightarrow> Inr (fold fl_max rest x))"

fun fl_insort :: "fl \<Rightarrow> fl list \<Rightarrow> fl list" where
  "fl_insort x [] = [x]"
| "fl_insort x (y # ys) = (if fl_gt x y then y # fl_insort x ys else x # y # ys)"

definition torch_median :: "fl list \<Rightarrow> fl" where
  "torch_median xs =
     (if xs = [] \<or> NaN \<in> set xs then NaN
      else foldr fl_insort xs [] ! ((length xs - 1) div 2))"

text \<open>
  \<^verbatim>\<open>[torch.mean(v).item(), torch.max(v).item(), torch.median(v).item()]\<close>, evaluated
  from left to right.
\<close>

definition norms_stat :: "fl list \<Rightarrow> error + fl list" where
  "norms_stat v =
     (case torch_max v of
        Inl e \<Rightarrow> Inl e
      | Inr mx \<Rightarrow> Inr [torch_mean v, mx, torch_median v])"

section \<open>The clipping kernels\<close>

text \<open>
  \<^verbatim>\<open>inplace_clipping(matrix, clip)\<close>: the loop \<^verbatim>\<open>for i in range(n)\<close> over the rows
  of the matrix it is given; the result is the matrix after the call.
\<close>

definition inplace_clipping_row :: "fl \<Rightarrow> nat \<Rightarrow> matrix \<Rightarrow> matrix" where
  "inplace_clipping_row clip i mat =
     (let col = mat ! i;
          col_norm = fl_sqrt (fl_sum (map (\<lambda>x. fl_mul x x) col))
      in if fl_gt col_norm clip
         then mat[i := map (\<lambda>x. fl_div x (fl_div col_norm clip)) col]
         else mat)"

definition inplace_clipping :: "matrix \<Rightarrow> fl \<Rightarrow> matrix" where
  "inplace_clipping mat clip = fold (inplace_clipping_row clip) [0..<length mat] mat"

text \<open>
  \<^verbatim>\<open>clip_column(tsr, clip, inplace)\<close>. The pair is what the call returns (Python's
  \<^verbatim>\<open>None\<close> on the in-place branch, which has no \<^verbatim>\<open>return\<close>) and the tensor \<open>tsr\<close>
  after the call. The clip bound is a finite Python float.
\<close>

definition clip_column :: "matrix \<Rightarrow> real \<Rightarrow> bool \<Rightarrow> matrix option \<times> matrix" where
  "clip_column tsr clip inplace =
     (if inplace then (None, inplace_clipping tsr (Fin clip))
      else
        (let norms = norm_dim1 tsr;
             scale = map (\<lambda>nrm. clamp_max (fl_div (Fin clip) nrm) 1) norms
         in (Some (map2 (\<lambda>row s. map (\<lambda>x. fl_mul x s) row) tsr scale), tsr)))"

subsection \<open>The kernels in single precision\<close>

text \<open>
  Tensors of the program hold single precision floats by default. For the one claim
  that turns on rounding, the two kernels are written out a second time with every
  arithmetic result rounded to binary32, as IEEE 754 prescribes for \<open>+\<close>, \<open>*\<close>,
  \<open>/\<close> and the square root: the exact result, rounded to the nearest representable
  value, ties to the even significand. \<open>rne\<close> rounds a real to the nearest integer,
  ties to even. \<open>binary32\<close> rounds a real to a float of 24 significant bits with
  exponents from -126 on (below, the spacing stays \<open>2\<^sup>-\<^sup>1\<^sup>4\<^sup>9\<close>), and to an infinity
  when the rounded magnitude reaches \<open>2\<^sup>1\<^sup>2\<^sup>8\<close>.
\<close>

definition rne :: "real \<Rightarrow> int" where
  "rne q = (let f = \<lfloor>q\<rfloor> in
     if q - of_int f < 1 / 2 then f
     else if 1 / 2 < q - of_int f then f + 1
     else if even f then f else f + 1)"

definition binary32 :: "real \<Rightarrow> fl" where
  "binary32 x = (if x = 0 then Fin 0 else
     (let e = max \<lfloor>log 2 \<bar>x\<bar>\<rfloor> (- 126);
          ulp = 2 powr (of_int e - 23);
          y = of_int (rne (\<bar>x\<bar> / ulp)) * ulp
      in if 2 ^ 128 \<le> y then signed_inf x else Fin (sgn x * y)))"







section \<open>The step\<close>

text \<open>
  The module's global state that the step reads: the basis \<^verbatim>\<open>P\<close> (k rows of length d)
  and the default random generator of the device, which \<^verbatim>\<open>set_seed\<close> seeds and
  \<^verbatim>\<open>torch.normal\<close> advances. A generator is the sequence of standard normal variates its
  seed determines and the number of variates already drawn.
\<close>

record generator =
  variates :: "nat \<Rightarrow> real"
  drawn :: nat

record globals =
  P :: matrix
  default_generator :: generator

text \<open>
  \<^verbatim>\<open>torch.normal(mean, std, size=...)\<close> with float arguments and no generator
  argument: RuntimeError unless \<open>std \<ge> 0\<close>; otherwise \<open>mean + std * z\<close> for the next
  variates \<open>z\<close> of the default generator.
\<close>

definition torch_normal :: "generator \<Rightarrow> real \<Rightarrow> real \<Rightarrow> nat \<Rightarrow> error + (fl list \<times> generator)" where
  "torch_normal gen mean std n =
     (if std \<ge> 0
      then Inr (map (\<lambda>i. Fin (mean + std * variates gen i)) [drawn gen..<drawn gen + n],
                gen\<lparr>drawn := drawn gen + n\<rparr>)
      else Inl RuntimeError)"

text \<open>
  Lines 398 to 400 of \<^verbatim>\<open>P_SGD_DP\<close>: the noise is drawn with standard deviation
  \<^verbatim>\<open>noise_multiplier * clip / embedding.shape[0]\<close> (Python floats and an int, so a zero
  divisor raises) and added to \<^verbatim>\<open>clipped_theta\<close>. \<open>n\<close> is \<^verbatim>\<open>embedding.shape[0]\<close>.
\<close>

definition add_theta_noise ::
  "generator \<Rightarrow> fl list \<Rightarrow> real \<Rightarrow> real \<Rightarrow> nat \<Rightarrow> error + (fl list \<times> generator)" where
  "add_theta_noise gen clipped_theta noise_multiplier clip n =
     (if n = 0 then Inl ZeroDivisionError
      else (case torch_normal gen 0 (noise_multiplier * clip / real n) (length clipped_theta) of
              Inl e \<Rightarrow> Inl e
            | Inr (theta_noise, gen') \<Rightarrow> Inr (map2 fl_add clipped_theta theta_noise, gen')))"

text \<open>
  \<^verbatim>\<open>P_SGD_DP(model, optimizer, grad, oldf, X, y, noise_multiplier, clip)\<close>. The
  arguments \<^verbatim>\<open>oldf\<close>, \<^verbatim>\<open>X\<close> and \<^verbatim>\<open>y\<close> are not used by the body. The optimizer is an
  external collaborator: \<open>optimizer\<close> is what its \<^verbatim>\<open>step()\<close> does to the model. The
  approximation error of lines 377 to 379 is computed and dropped; it raises nothing
  once line 374 has succeeded, and is left out. The result is the pair of diagnostics
  the function returns, the model and the globals after the call.
\<close>

definition P_SGD_DP ::
  "globals \<Rightarrow> model \<Rightarrow> (model \<Rightarrow> model) \<Rightarrow> matrix \<Rightarrow> real \<Rightarrow> real
     \<Rightarrow> error + ((fl list \<times> fl list) \<times> model \<times> globals)" where
  "P_SGD_DP glob model' optimizer grad noise_multiplier clip =
     (let selected_bases = mat_T (P glob);
          selected_bases_T = P glob
      in case matmul grad selected_bases of
           Inl e \<Rightarrow> Inl e
         | Inr embedding \<Rightarrow>
       (case norms_stat (norm_dim1 embedding) of
           Inl e \<Rightarrow> Inl e
         | Inr org_norms_stat \<Rightarrow>
       (let clipped_embedding = the (fst (clip_column embedding clip False))
        in case norms_stat (norm_dim1 clipped_embedding) of
           Inl e \<Rightarrow> Inl e
         | Inr clipped_norms_stat \<Rightarrow>
       (let avg_clipped_embedding =
              map (\<lambda>x. fl_div x (Fin (real (length embedding)))) (sum_dim0 clipped_embedding)
        in case add_theta_noise (default_generator glob) avg_clipped_embedding
                  noise_multiplier clip (length embedding) of
           Inl e \<Rightarrow> Inl e
         | Inr (clipped_theta, gen') \<Rightarrow>
       (case matmul [clipped_theta] selected_bases_T of
           Inl e \<Rightarrow> Inl e
         | Inr noisy \<Rightarrow>
       (case update_grad model' (concat noisy) of
           Inl e \<Rightarrow> Inl e
         | Inr model'' \<Rightarrow>
             Inr ((org_norms_stat, clipped_norms_stat), optimizer model'',
                  glob\<lparr>default_generator := gen'\<rparr>)))))))"

section \<open>Notions used in the statements\<close>

text \<open>
  A matrix of real numbers, as a tensor whose entries are all finite, and the test that
  a scalar is finite (neither NaN nor an infinity).
\<close>

definition lift :: "real list list \<Rightarrow> matrix" where
  "lift M = map (map Fin) M"

definition is_finite :: "fl \<Rightarrow> bool" where
  "is_finite x = (case x of Fin a \<Rightarrow> True | PInf \<Rightarrow> False | NInf \<Rightarrow> False | NaN \<Rightarrow> False)"

text \<open>The L2 norm of a row of real numbers.\<close>

definition l2norm :: "real list \<Rightarrow> real" where
  "l2norm r = sqrt (sum_list (map (\<lambda>x. x * x) r))"

text \<open>
  Clipping of one row in the words of the specification: if the norm exceeds the bound,
  scale the row by bound over norm, otherwise leave it unchanged.
\<close>

definition spec_clip_row :: "real \<Rightarrow> real list \<Rightarrow> real list" where
  "spec_clip_row C r = (if l2norm r > C then map (\<lambda>x. x * (C / l2norm r)) r else r)"

text \<open>The sum of the element counts of the gradient shapes, which \<^verbatim>\<open>update_grad\<close> reads.\<close>

definition grad_count :: "model \<Rightarrow> nat" where
  "grad_count m = sum_list (map (\<lambda>p. numel (shape (p_grad p))) m)"

text \<open>What each kernel does to one row.\<close>

definition functional_row :: "real \<Rightarrow> fl list \<Rightarrow> fl list" where
  "functional_row clip row =
     map (\<lambda>x. fl_mul x (clamp_max (fl_div (Fin clip) (fl_sqrt (fl_sum (map (\<lambda>x. fl_mul x x) row)))) 1)) row"

definition inplace_row :: "fl \<Rightarrow> fl list \<Rightarrow> fl list" where
  "inplace_row clip col =
     (let col_norm = fl_sqrt (fl_sum (map (\<lambda>x. fl_mul x x) col))
      in if fl_gt col_norm clip then map (\<lambda>x. fl_div x (fl_div col_norm clip)) col else col)"

text \<open>
  The two products of the step: line 374 multiplies the batch by \<^verbatim>\<open>P.T\<close> (the
  projection), line 402 multiplies the embedding by \<^verbatim>\<open>P\<close> (the reconstruction).
\<close>

definition project :: "matrix \<Rightarrow> matrix \<Rightarrow> error + matrix" where
  "project basis batch = matmul batch (mat_T basis)"

definition reconstruct :: "matrix \<Rightarrow> matrix \<Rightarrow> error + matrix" where
  "reconstruct basis embedding = matmul embedding basis"

text \<open>The dot product of two rows, and a basis whose rows are orthonormal.\<close>

definition rdot :: "real list \<Rightarrow> real list \<Rightarrow> real" where
  "rdot a b = sum_list (map2 (*) a b)"

definition orthonormal_rows :: "real list list \<Rightarrow> bool" where
  "orthonormal_rows B =
     list_all (\<lambda>i. list_all (\<lambda>j. rdot (B ! i) (B ! j) = (if i = j then 1 else 0)) [0..<length B])
       [0..<length B]"

text \<open>A row of reals times a matrix of \<open>d\<close> columns, and the transpose of such a matrix.\<close>

definition vecmat :: "real list \<Rightarrow> real list list \<Rightarrow> nat \<Rightarrow> real list" where
  "vecmat a B d = map (\<lambda>j. \<Sum>i<length B. a ! i * B ! i ! j) [0..<d]"

definition rT :: "real list list \<Rightarrow> nat \<Rightarrow> real list list" where
  "rT B d = map (\<lambda>j. map (\<lambda>row. row ! j) B) [0..<d]"

text \<open>
  The arguments of a step fit together: the basis has k rows of d > 0 columns, the
  batch has at least one row and d columns, and the model declares d elements.
\<close>

definition step_shapes :: "globals \<Rightarrow> model \<Rightarrow> matrix \<Rightarrow> bool" where
  "step_shapes glob m grad =
     (0 < ncols (P glob) \<and> list_all (\<lambda>r. length r = ncols (P glob)) (P glob)
      \<and> grad \<noteq> [] \<and> list_all (\<lambda>r. length r = ncols (P glob)) grad
      \<and> wf_model m \<and> param_count m = ncols (P glob))"

text \<open>Concrete inputs for the examples.\<close>

definition model_ex :: model where
  "model_ex = [\<lparr>p_name = ''weight'',
                 p_data = \<lparr>shape = [1, 2], elems = [Fin 5, Fin 6]\<rparr>,
                 p_grad = \<lparr>shape = [1, 2], elems = [Fin 0, Fin 0]\<rparr>\<rparr>,
               \<lparr>p_name = ''bias'',
                 p_data = \<lparr>shape = [1], elems = [Fin 7]\<rparr>,
                 p_grad = \<lparr>shape = [1], elems = [Fin 0]\<rparr>\<rparr>]"

definition model_one :: model where
  "model_one = [\<lparr>p_name = ''w'',
                  p_data = \<lparr>shape = [1], elems = [Fin 5]\<rparr>,
                  p_grad = \<lparr>shape = [1], elems = [Fin 0]\<rparr>\<rparr>]"

definition glob_ex :: "real \<Rightarrow> globals" where
  "glob_ex z = \<lparr>P = [[Fin 1]], default_generator = \<lparr>variates = (\<lambda>i. z), drawn = 0\<rparr>\<rparr>"

section \<open>The vectorizer: lemmas\<close>

lemma take_drop_append_take:
  "take a (drop i v) @ take b (drop (i + a) v) = take (a + b) (drop i v)"
  by (metis add.commute drop_drop take_add)

lemma update_grad_loop_long:
  "idx + grad_count m \<le> length v \<Longrightarrow>
   \<exists>m'. update_grad_loop m v idx = Inr m' \<and> length m' = length m \<and>
        map p_name m' = map p_name m \<and> map p_data m' = map p_data m \<and>
        map (\<lambda>p. shape (p_grad p)) m' = map (\<lambda>p. shape (p_grad p)) m \<and>
        concat (map (\<lambda>p. elems (p_grad p)) m') = take (grad_count m) (drop idx v)"
proof (induction m arbitrary: idx)
  case Nil
  then show ?case by (simp add: grad_count_def)
next
  case (Cons p rest)
  let ?s = "numel (shape (p_grad p))"
  have le: "(idx + ?s) + grad_count rest \<le> length v"
    using Cons.prems by (simp add: grad_count_def)
  from Cons.IH [OF le] obtain r' where
    r: "update_grad_loop rest v (idx + ?s) = Inr r'" "length r' = length rest"
       "map p_name r' = map p_name rest" "map p_data r' = map p_data rest"
       "map (\<lambda>p. shape (p_grad p)) r' = map (\<lambda>p. shape (p_grad p)) rest"
       "concat (map (\<lambda>p. elems (p_grad p)) r') = take (grad_count rest) (drop (idx + ?s) v)"
    by blast
  have len: "length (take ?s (drop idx v)) = ?s"
    using le by simp
  show ?case
    using r len by (simp add: Let_def grad_count_def take_drop_append_take)
qed

lemma update_grad_loop_short:
  "idx \<le> length v \<Longrightarrow> length v < idx + grad_count m \<Longrightarrow>
   update_grad_loop m v idx = Inl RuntimeError"
proof (induction m arbitrary: idx)
  case Nil
  then show ?case by (simp add: grad_count_def)
next
  case (Cons p rest)
  let ?s = "numel (shape (p_grad p))"
  show ?case
  proof (cases "length v - idx < ?s")
    case True
    then show ?thesis by (simp add: Let_def)
  next
    case False
    then have a: "idx + ?s \<le> length v" using Cons.prems by simp
    have b: "length v < (idx + ?s) + grad_count rest"
      using Cons.prems by (simp add: grad_count_def)
    have len: "length (take ?s (drop idx v)) = ?s" using a by simp
    show ?thesis using Cons.IH [OF a b] len by (simp add: Let_def)
  qed
qed

lemma wf_model_grad_count: "wf_model m \<Longrightarrow> grad_count m = param_count m"
  by (induction m) (simp_all add: wf_model_def wf_param_def grad_count_def param_count_def)

lemma update_param_loop_chunks:
  "list_all2 (\<lambda>p c. length c = numel (shape (p_data p))) m cs \<Longrightarrow>
   update_param_loop m (TorchTensor (pre @ concat cs @ post)) (length pre)
   = Inr (map2 (\<lambda>p c. p\<lparr>p_data := \<lparr>shape = shape (p_data p), elems = c\<rparr>\<rparr>) m cs)"
proof (induction m cs arbitrary: pre rule: list_all2_induct)
  case Nil
  then show ?case by simp
next
  case (Cons p m c cs)
  have ih: "update_param_loop m (TorchTensor ((pre @ c) @ concat cs @ post)) (length (pre @ c))
            = Inr (map2 (\<lambda>p c. p\<lparr>p_data := \<lparr>shape = shape (p_data p), elems = c\<rparr>\<rparr>) m cs)"
    by (rule Cons.IH)
  show ?case using ih Cons.hyps(1) by (simp add: Let_def scalars_def)
qed

lemma update_param_loop_concat:
  assumes "list_all (\<lambda>p. wf_tensor (p_data p)) m"
  shows "update_param_loop m (TorchTensor (concat (map (\<lambda>p. elems (p_data p)) m))) 0 = Inr m"
proof -
  have l2: "list_all2 (\<lambda>p c. length c = numel (shape (p_data p))) m (map (\<lambda>p. elems (p_data p)) m)"
    using assms by (induction m) (simp_all add: wf_tensor_def)
  have same: "map2 (\<lambda>p c. p\<lparr>p_data := \<lparr>shape = shape (p_data p), elems = c\<rparr>\<rparr>) m
                (map (\<lambda>p. elems (p_data p)) m) = m"
    by (induction m) simp_all
  from update_param_loop_chunks [OF l2, of "[]" "[]"] show ?thesis
    by (simp add: same)
qed

lemma update_param_ndarray:
  assumes "m \<noteq> []" and "param_count m \<le> length v"
  shows "update_param m (NdArray v) = Inl TypeError"
proof (cases m)
  case Nil
  then show ?thesis using assms by simp
next
  case (Cons p rest)
  then have "numel (shape (p_data p)) \<le> length v"
    using assms(2) by (simp add: param_count_def)
  then show ?thesis using Cons
    by (simp add: update_param_def Let_def scalars_def)
qed

section \<open>The clipping kernels: lemmas\<close>

lemma fl_sum_Fin: "fl_sum (map Fin xs) = Fin (sum_list xs)"
  by (induction xs) (simp_all add: fl_sum_def)

lemma sumsq_nonneg: "0 \<le> sum_list (map (\<lambda>x. x * x) (r :: real list))"
  by (rule sum_list_nonneg) auto

lemma row_norm_Fin:
  "fl_sqrt (fl_sum (map (\<lambda>x. fl_mul x x) (map Fin r))) = Fin (l2norm r)"
proof -
  have "map (\<lambda>x. fl_mul x x) (map Fin r) = map Fin (map (\<lambda>x. x * x) r)"
    by simp
  then have "fl_sum (map (\<lambda>x. fl_mul x x) (map Fin r)) = Fin (sum_list (map (\<lambda>x. x * x) r))"
    by (simp only: fl_sum_Fin)
  then show ?thesis
    using sumsq_nonneg [of r] by (simp only: fl_sqrt_def l2norm_def fl.case) simp
qed

lemma l2norm_nonneg: "0 \<le> l2norm r"
  by (simp add: l2norm_def sumsq_nonneg)



lemma l2norm_scale: "l2norm (map (\<lambda>x. x * c) r) = \<bar>c\<bar> * l2norm r"
proof -
  have "sum_list (map (\<lambda>x. x * x) (map (\<lambda>x. x * c) r)) = (c * c) * sum_list (map (\<lambda>x. x * x) r)"
    by (induction r) (simp_all add: algebra_simps)
  then show ?thesis
    by (simp add: l2norm_def real_sqrt_mult)
qed

lemma inplace_clipping_fold:
  "k \<le> length mat \<Longrightarrow>
   fold (inplace_clipping_row clip) [0..<k] mat = map (inplace_row clip) (take k mat) @ drop k mat"
proof (induction k)
  case 0
  then show ?case by simp
next
  case (Suc k)
  then have k: "k < length mat" by simp
  have ih: "fold (inplace_clipping_row clip) [0..<k] mat = map (inplace_row clip) (take k mat) @ drop k mat"
    using Suc by simp
  have d: "drop k mat = mat ! k # drop (Suc k) mat"
    using k by (simp add: Cons_nth_drop_Suc)
  have t: "take (Suc k) mat = take k mat @ [mat ! k]"
    using k by (simp add: take_Suc_conv_app_nth)
  have len: "length (map (inplace_row clip) (take k mat)) = k" using k by simp
  have nth: "(map (inplace_row clip) (take k mat) @ mat ! k # drop (Suc k) mat) ! k = mat ! k"
    using len by (metis nth_append_length)
  have upd: "(map (inplace_row clip) (take k mat) @ mat ! k # drop (Suc k) mat)[k := v]
             = map (inplace_row clip) (take k mat) @ v # drop (Suc k) mat" for v
    using len by (metis list_update_length)
  have "fold (inplace_clipping_row clip) [0..<Suc k] mat
          = inplace_clipping_row clip k (fold (inplace_clipping_row clip) [0..<k] mat)"
    by simp
  also have "\<dots> = inplace_clipping_row clip k
                  (map (inplace_row clip) (take k mat) @ mat ! k # drop (Suc k) mat)"
    by (simp only: ih d)
  also have "\<dots> = map (inplace_row clip) (take k mat) @ inplace_row clip (mat ! k) # drop (Suc k) mat"
    unfolding inplace_clipping_row_def inplace_row_def Let_def nth upd by simp
  also have "\<dots> = map (inplace_row clip) (take (Suc k) mat) @ drop (Suc k) mat"
    by (simp only: t) simp
  finally show ?case .
qed

lemma inplace_clipping_map: "inplace_clipping mat clip = map (inplace_row clip) mat"
  by (simp add: inplace_clipping_def inplace_clipping_fold)

lemma map2_map_same: "map2 f xs (map h xs) = map (\<lambda>x. f x (h x)) xs"
  by (induction xs) simp_all

lemma clip_column_functional:
  "clip_column tsr clip False = (Some (map (functional_row clip) tsr), tsr)"
  by (simp add: clip_column_def norm_dim1_def Let_def map2_map_same functional_row_def comp_def)

lemma clip_column_inplace:
  "clip_column tsr clip True = (None, map (inplace_row (Fin clip)) tsr)"
  by (simp add: clip_column_def inplace_clipping_map)

lemma functional_row_Fin:
  "functional_row C (map Fin r) =
     map (\<lambda>x. fl_mul (Fin x) (clamp_max (fl_div (Fin C) (Fin (l2norm r))) 1)) r"
  unfolding functional_row_def row_norm_Fin by (simp add: comp_def)

lemma inplace_row_Fin:
  "inplace_row (Fin C) (map Fin r) =
     (if l2norm r > C then map (\<lambda>x. fl_div (Fin x) (fl_div (Fin (l2norm r)) (Fin C))) r
      else map Fin r)"
  unfolding inplace_row_def row_norm_Fin Let_def by (simp add: comp_def)

lemma functional_row_pos:
  assumes "0 < C"
  shows "functional_row C (map Fin r) = map Fin (spec_clip_row C r)"
proof -
  have n0: "0 \<le> l2norm r" by (rule l2norm_nonneg)
  consider (zero) "l2norm r = 0" | (small) "0 < l2norm r" "l2norm r \<le> C" | (big) "C < l2norm r"
    using n0 by linarith
  then show ?thesis
  proof cases
    case zero
    then show ?thesis using assms
      by (simp add: functional_row_Fin spec_clip_row_def clamp_max_def signed_inf_def)
  next
    case small
    then have "1 \<le> C / l2norm r" by (simp add: le_divide_eq)
    then show ?thesis using small
      by (auto simp add: functional_row_Fin spec_clip_row_def clamp_max_def)
  next
    case big
    then have "C / l2norm r < 1" using assms by (simp add: divide_less_eq)
    then show ?thesis using big assms
      by (simp add: functional_row_Fin spec_clip_row_def clamp_max_def)
  qed
qed

lemma inplace_row_pos:
  assumes "0 < C"
  shows "inplace_row (Fin C) (map Fin r) = map Fin (spec_clip_row C r)"
proof (cases "C < l2norm r")
  case True
  then have "l2norm r / C \<noteq> 0" using assms by simp
  then show ?thesis using True assms
    by (simp add: inplace_row_Fin spec_clip_row_def)
next
  case False
  then show ?thesis by (simp add: inplace_row_Fin spec_clip_row_def)
qed



lemma spec_clip_row_norm:
  assumes "0 < C"
  shows "l2norm (spec_clip_row C r) \<le> C"
proof (cases "C < l2norm r")
  case True
  then have pos: "0 < l2norm r" using assms by simp
  have "l2norm (map (\<lambda>x. x * (C / l2norm r)) r) = \<bar>C / l2norm r\<bar> * l2norm r"
    by (rule l2norm_scale)
  also have "\<dots> = C" using pos assms by simp
  finally show ?thesis using True by (simp add: spec_clip_row_def)
next
  case False
  then show ?thesis by (simp add: spec_clip_row_def)
qed

lemma clip_column_functional_pos:
  "0 < C \<Longrightarrow> clip_column (lift M) C False = (Some (lift (map (spec_clip_row C) M)), lift M)"
  by (simp add: clip_column_functional lift_def functional_row_pos comp_def)

lemma clip_column_inplace_pos:
  "0 < C \<Longrightarrow> clip_column (lift M) C True = (None, lift (map (spec_clip_row C) M))"
  by (simp add: clip_column_inplace lift_def inplace_row_pos comp_def)

section \<open>Single precision: lemmas\<close>















lemma rdiv_exact: "fl_mul (fl_div (Fin 1) n) (Fin c) = fl_div (Fin c) n"
  by (cases n) (simp_all add: signed_inf_def)

lemma b32_0: "binary32 0 = Fin 0"
  by (simp add: binary32_def)








section \<open>Matrix products of finite matrices: lemmas\<close>

lemma map2_index:
  "length xs = length ys \<Longrightarrow> map2 f xs ys = map (\<lambda>i. f (xs ! i) (ys ! i)) [0..<length ys]"
  by (rule nth_equalityI) simp_all

lemma sum_list_upt: "sum_list (map f [0..<n]) = (\<Sum>i<n. (f i :: real))"
  by (simp add: interv_sum_list_conv_sum_set_nat atLeast0LessThan)

lemma rdot_sum: "length a = length b \<Longrightarrow> rdot a b = (\<Sum>i<length b. a ! i * b ! i)"
  by (simp add: rdot_def map2_index sum_list_upt)

lemma ncols_lift: "ncols (lift B) = (case B of [] \<Rightarrow> 0 | b # _ \<Rightarrow> length b)"
  by (cases B) (simp_all add: ncols_def lift_def)

lemma ncols_rect: "B \<noteq> [] \<Longrightarrow> list_all (\<lambda>r. length r = d) B \<Longrightarrow> ncols (lift B) = d"
  by (cases B) (simp_all add: ncols_def lift_def)

lemma entry_Fin:
  assumes "length a = length B" and "list_all (\<lambda>r. length r = d) B" and "j < d"
  shows "fl_sum (map2 (\<lambda>x b. fl_mul x (b ! j)) (map Fin a) (lift B)) = Fin (\<Sum>i<length B. a ! i * B ! i ! j)"
proof -
  have len: "length (map Fin a) = length (lift B)" using assms(1) by (simp add: lift_def)
  have "map2 (\<lambda>x b. fl_mul x (b ! j)) (map Fin a) (lift B)
        = map (\<lambda>i. fl_mul (map Fin a ! i) (lift B ! i ! j)) [0..<length (lift B)]"
    by (rule map2_index [OF len])
  also have "\<dots> = map (\<lambda>i. Fin (a ! i * B ! i ! j)) [0..<length B]"
  proof (rule nth_equalityI)
    show "length (map (\<lambda>i. fl_mul (map Fin a ! i) (lift B ! i ! j)) [0..<length (lift B)])
          = length (map (\<lambda>i. Fin (a ! i * B ! i ! j)) [0..<length B])"
      by (simp add: lift_def)
  next
    fix i assume "i < length (map (\<lambda>i. fl_mul (map Fin a ! i) (lift B ! i ! j)) [0..<length (lift B)])"
    then have i: "i < length B" by (simp add: lift_def)
    then have "length (B ! i) = d" using assms(2) by (simp add: list_all_length)
    then show "map (\<lambda>i. fl_mul (map Fin a ! i) (lift B ! i ! j)) [0..<length (lift B)] ! i
             = map (\<lambda>i. Fin (a ! i * B ! i ! j)) [0..<length B] ! i"
      using i assms(1,3) by (simp add: lift_def)
  qed
  also have "\<dots> = map Fin (map (\<lambda>i. a ! i * B ! i ! j) [0..<length B])" by simp
  finally show ?thesis by (simp only: fl_sum_Fin sum_list_upt)
qed

lemma matmul_row:
  assumes "length a = length B" and "list_all (\<lambda>r. length r = d) B" and "B \<noteq> []"
  shows "matmul [map Fin a] (lift B) = Inr [map Fin (vecmat a B d)]"
proof -
  have len: "length (map Fin a) = length (lift B)" using assms(1) by (simp add: lift_def)
  have nc: "ncols (lift B) = d" using assms by (simp add: ncols_rect)
  have "map (\<lambda>j. fl_sum (map2 (\<lambda>x b. fl_mul x (b ! j)) (map Fin a) (lift B))) [0..<d]
        = map (\<lambda>j. Fin (\<Sum>i<length B. a ! i * B ! i ! j)) [0..<d]"
    by (rule map_cong) (simp_all add: entry_Fin [OF assms(1,2)])
  then show ?thesis using len nc by (simp add: matmul_def vecmat_def comp_def)
qed

lemma mat_T_lift:
  assumes "list_all (\<lambda>r. length r = d) B" and "B \<noteq> []"
  shows "mat_T (lift B) = lift (rT B d)"
proof -
  have nc: "ncols (lift B) = d" using assms by (simp add: ncols_rect)
  have "map (\<lambda>row. row ! j) (lift B) = map Fin (map (\<lambda>row. row ! j) B)" if "j < d" for j
    using assms(1) that by (simp add: lift_def list_all_iff)
  then have "map (\<lambda>j. map (\<lambda>row. row ! j) (lift B)) [0..<d]
             = map (\<lambda>j. map Fin (map (\<lambda>row. row ! j) B)) [0..<d]"
    by (intro map_cong) simp_all
  then show ?thesis
    unfolding mat_T_def nc rT_def by (simp add: lift_def comp_def)
qed

lemma orthonormal_rowsD:
  "orthonormal_rows B \<Longrightarrow> i < length B \<Longrightarrow> j < length B \<Longrightarrow>
   rdot (B ! i) (B ! j) = (if i = j then 1 else 0)"
  by (simp add: orthonormal_rows_def list_all_iff)

lemma ortho_sum:
  assumes rect: "list_all (\<lambda>r. length r = d) B" and ortho: "orthonormal_rows B"
    and i: "i < length B"
  shows "(\<Sum>j<d. (\<Sum>i'<length B. w ! i' * B ! i' ! j) * B ! i ! j) = w ! i"
proof -
  have len: "length (B ! n) = d" if "n < length B" for n
    using rect that by (simp add: list_all_length)
  have "(\<Sum>j<d. (\<Sum>i'<length B. w ! i' * B ! i' ! j) * B ! i ! j)
        = (\<Sum>j<d. \<Sum>i'<length B. w ! i' * (B ! i' ! j * B ! i ! j))"
    by (simp add: sum_distrib_right mult.assoc)
  also have "\<dots> = (\<Sum>i'<length B. \<Sum>j<d. w ! i' * (B ! i' ! j * B ! i ! j))"
    by (rule sum.swap)
  also have "\<dots> = (\<Sum>i'<length B. w ! i' * (\<Sum>j<d. B ! i' ! j * B ! i ! j))"
    by (simp add: sum_distrib_left)
  also have "\<dots> = (\<Sum>i'<length B. w ! i' * (if i' = i then 1 else 0))"
  proof (rule sum.cong)
    fix n assume "n \<in> {..<length B}"
    then have n: "n < length B" by simp
    have "rdot (B ! n) (B ! i) = (\<Sum>j<d. B ! n ! j * B ! i ! j)"
      using rdot_sum [of "B ! n" "B ! i"] len [OF n] len [OF i] by simp
    then show "w ! n * (\<Sum>j<d. B ! n ! j * B ! i ! j) = w ! n * (if n = i then 1 else 0)"
      using orthonormal_rowsD [OF ortho n i] by simp
  qed simp
  also have "\<dots> = (\<Sum>i'<length B. if i' = i then w ! i' else 0)"
    by (rule sum.cong) simp_all
  also have "\<dots> = w ! i"
    using i by simp
  finally show ?thesis .
qed

lemma ortho_width:
  assumes rect: "list_all (\<lambda>r. length r = d) B" and ortho: "orthonormal_rows B" and ne: "B \<noteq> []"
  shows "0 < d"
proof (rule ccontr)
  assume "\<not> 0 < d"
  then have "d = 0" by simp
  have z: "0 < length B" using ne by simp
  then have "length (B ! 0) = 0" using rect \<open>d = 0\<close> by (simp add: list_all_length)
  then have "rdot (B ! 0) (B ! 0) = 0" by (simp add: rdot_def)
  then show False using orthonormal_rowsD [OF ortho z z] by simp
qed

lemma rT_rect: "list_all (\<lambda>r. length r = length B) (rT B d)"
  by (simp add: rT_def list_all_iff)

lemma vecmat_rT:
  assumes rect: "list_all (\<lambda>r. length r = d) B"
  shows "vecmat y (rT B d) (length B) = map (\<lambda>i. \<Sum>j<d. y ! j * B ! i ! j) [0..<length B]"
  by (simp add: vecmat_def rT_def)

lemma project_row:
  assumes rect: "list_all (\<lambda>r. length r = d) B" and ne: "B \<noteq> []" and d: "0 < d"
    and y: "length y = d"
  shows "matmul [map Fin y] (mat_T (lift B))
         = Inr [map Fin (map (\<lambda>i. \<Sum>j<d. y ! j * B ! i ! j) [0..<length B])]"
proof -
  have ne': "rT B d \<noteq> []" using d by (simp add: rT_def)
  have len: "length y = length (rT B d)" using y by (simp add: rT_def)
  show ?thesis
    using matmul_row [OF len rT_rect ne'] mat_T_lift [OF rect ne] vecmat_rT [OF rect]
    by simp
qed

lemma project_reconstruct_row:
  assumes rect: "list_all (\<lambda>r. length r = d) B" and ortho: "orthonormal_rows B"
    and ne: "B \<noteq> []" and w: "length w = length B"
  shows "matmul [map Fin (vecmat w B d)] (mat_T (lift B)) = Inr [map Fin w]"
proof -
  have d: "0 < d" by (rule ortho_width [OF rect ortho ne])
  have "map (\<lambda>i. \<Sum>j<d. vecmat w B d ! j * B ! i ! j) [0..<length B] = map (\<lambda>i. w ! i) [0..<length B]"
  proof (rule map_cong)
    fix i assume "i \<in> set [0..<length B]"
    then have i: "i < length B" by simp
    have "(\<Sum>j<d. vecmat w B d ! j * B ! i ! j) = (\<Sum>j<d. (\<Sum>i'<length B. w ! i' * B ! i' ! j) * B ! i ! j)"
      by (rule sum.cong) (simp_all add: vecmat_def)
    then show "(\<Sum>j<d. vecmat w B d ! j * B ! i ! j) = w ! i"
      using ortho_sum [OF rect ortho i] by simp
  qed simp
  also have "\<dots> = w" using w by (metis map_nth)
  finally have e: "map (\<lambda>i. \<Sum>j<d. vecmat w B d ! j * B ! i ! j) [0..<length B] = w" .
  have "length (vecmat w B d) = d" by (simp add: vecmat_def)
  from project_row [OF rect ne d this] show ?thesis by (simp only: e)
qed

lemma Fin_inj: "map Fin a = map Fin b \<Longrightarrow> a = b"
  by (simp add: inj_on_def)

section \<open>The step: lemmas\<close>

lemma fl_add_zero: "fl_add x (Fin 0) = x"
  by (cases x) simp_all

lemma map2_fl_add_zero:
  "map2 fl_add xs (map (\<lambda>i. Fin 0) [a..<a + length xs]) = xs"
  by (rule nth_equalityI) (simp_all add: fl_add_zero)

lemma add_theta_noise_ok:
  assumes "0 < n" and "0 \<le> s * c"
  shows "add_theta_noise gen theta s c n
         = Inr (map2 fl_add theta
                  (map (\<lambda>i. Fin (0 + s * c / real n * variates gen i))
                     [drawn gen..<drawn gen + length theta]),
                gen\<lparr>drawn := drawn gen + length theta\<rparr>)"
proof -
  have "0 \<le> s * c / real n" using assms by simp
  then show ?thesis using assms(1) by (simp add: add_theta_noise_def torch_normal_def)
qed

lemma add_theta_noise_neg:
  assumes "0 < n" and "s * c < 0"
  shows "add_theta_noise gen theta s c n = Inl RuntimeError"
proof -
  have "s * c / real n < 0" using assms by (simp add: divide_less_0_iff)
  then show ?thesis using assms(1) by (simp add: add_theta_noise_def torch_normal_def)
qed

lemma norms_stat_nonempty: "v \<noteq> [] \<Longrightarrow> \<exists>st. norms_stat v = Inr st"
  by (cases v) (simp_all add: norms_stat_def torch_max_def)

lemma norms_stat_empty: "norms_stat [] = Inl RuntimeError"
  by (simp add: norms_stat_def torch_max_def)

lemma P_SGD_DP_empty: "P_SGD_DP glob m opt [] s c = Inl RuntimeError"
  by (simp add: P_SGD_DP_def matmul_def norm_dim1_def norms_stat_empty)

lemma length_mat_T: "length (mat_T M) = ncols M"
  by (simp add: mat_T_def)

lemma ncols_mat_T: "0 < ncols M \<Longrightarrow> ncols (mat_T M) = length M"
  by (cases "ncols M") (simp_all add: mat_T_def ncols_def upt_conv_Cons del: upt_Suc)

lemma length_functional_row: "length (functional_row c r) = length r"
  by (simp add: functional_row_def)

lemma ncols_map: "(\<And>r. length (f r) = length r) \<Longrightarrow> ncols (map f M) = ncols M"
  by (cases M) (simp_all add: ncols_def)

lemma matmul_shape:
  assumes "list_all (\<lambda>a. length a = length B) A"
  shows "\<exists>R. matmul A B = Inr R \<and> length R = length A \<and> list_all (\<lambda>r. length r = ncols B) R"
  using assms by (simp add: matmul_def list_all_iff)

lemma ncols_rows: "M \<noteq> [] \<Longrightarrow> list_all (\<lambda>r. length r = k) M \<Longrightarrow> ncols M = k"
  by (cases M) (simp_all add: ncols_def)

lemma update_grad_exact:
  assumes "wf_model m" and "length v = param_count m"
  shows "\<exists>m'. update_grad m v = Inr m' \<and> concat (map (\<lambda>p. elems (p_grad p)) m') = v"
proof -
  have "0 + grad_count m \<le> length v"
    using assms by (simp add: wf_model_grad_count)
  from update_grad_loop_long [OF this] obtain m' where
    "update_grad_loop m v 0 = Inr m'"
    "concat (map (\<lambda>p. elems (p_grad p)) m') = take (grad_count m) (drop 0 v)"
    by blast
  then show ?thesis using assms by (simp add: update_grad_def wf_model_grad_count)
qed

text \<open>The step on arguments whose shapes fit, up to the noise draw, for any state of the generator.\<close>

lemma step_shapes_generator:
  "step_shapes (glob\<lparr>default_generator := g\<rparr>) m grad = step_shapes glob m grad"
  by (simp add: step_shapes_def)

lemma P_SGD_DP_run_any:
  assumes sh: "step_shapes glob m grad"
  shows "\<exists>avg st. length avg = length (P glob) \<and>
          (\<forall>g. P_SGD_DP (glob\<lparr>default_generator := g\<rparr>) m opt grad s c =
          (case add_theta_noise g avg s c (length grad) of
             Inl e \<Rightarrow> Inl e
           | Inr (theta, gen') \<Rightarrow>
               (case matmul [theta] (P glob) of
                  Inl e \<Rightarrow> Inl e
                | Inr noisy \<Rightarrow>
                    (case update_grad m (concat noisy) of
                       Inl e \<Rightarrow> Inl e
                     | Inr m'' \<Rightarrow> Inr (st, opt m'', glob\<lparr>default_generator := gen'\<rparr>)))))"
proof -
  let ?d = "ncols (P glob)" and ?k = "length (P glob)"
  have d: "0 < ?d" and gne: "grad \<noteq> []" and grows: "list_all (\<lambda>r. length r = ?d) grad"
    using sh by (simp_all add: step_shapes_def)
  have "list_all (\<lambda>a. length a = length (mat_T (P glob))) grad"
    using grows by (simp add: length_mat_T)
  from matmul_shape [OF this] obtain embedding where
    E: "matmul grad (mat_T (P glob)) = Inr embedding"
    and El: "length embedding = length grad"
    and Er: "list_all (\<lambda>r. length r = ncols (mat_T (P glob))) embedding"
    by blast
  have Ene: "embedding \<noteq> []" using El gne by auto
  have Ek: "ncols embedding = ?k"
    using ncols_rows [OF Ene Er] ncols_mat_T [OF d] by simp
  have "norm_dim1 embedding \<noteq> []" using Ene by (simp add: norm_dim1_def)
  from norms_stat_nonempty [OF this] obtain st1 where
    st1: "norms_stat (norm_dim1 embedding) = Inr st1" by blast
  let ?clipped = "map (functional_row c) embedding"
  have "norm_dim1 ?clipped \<noteq> []" using Ene by (simp add: norm_dim1_def)
  from norms_stat_nonempty [OF this] obtain st2 where
    st2: "norms_stat (norm_dim1 ?clipped) = Inr st2" by blast
  define avg where "avg = map (\<lambda>x. fl_div x (Fin (real (length embedding)))) (sum_dim0 ?clipped)"
  have "length avg = ncols ?clipped" by (simp add: avg_def sum_dim0_def)
  also have "\<dots> = ?k" using Ek by (simp add: ncols_map length_functional_row)
  finally have avg: "length avg = ?k" .
  have "P_SGD_DP (glob\<lparr>default_generator := g\<rparr>) m opt grad s c =
          (case add_theta_noise g avg s c (length grad) of
             Inl e \<Rightarrow> Inl e
           | Inr (theta, gen') \<Rightarrow>
               (case matmul [theta] (P glob) of
                  Inl e \<Rightarrow> Inl e
                | Inr noisy \<Rightarrow>
                    (case update_grad m (concat noisy) of
                       Inl e \<Rightarrow> Inl e
                     | Inr m'' \<Rightarrow> Inr ((st1, st2), opt m'', glob\<lparr>default_generator := gen'\<rparr>))))" for g
    unfolding P_SGD_DP_def Let_def avg_def El [symmetric]
    by (simp add: E st1 st2 clip_column_functional split: sum.splits prod.splits)
  then show ?thesis using avg by blast
qed

lemma P_SGD_DP_noise:
  assumes sh: "step_shapes glob m grad" and nn: "0 \<le> s * c"
  shows "\<exists>avg st. length avg = length (P glob) \<and>
          (\<forall>g. \<exists>m'. P_SGD_DP (glob\<lparr>default_generator := g\<rparr>) m opt grad s c =
                 Inr (st, opt m', glob\<lparr>default_generator := g\<lparr>drawn := drawn g + length (P glob)\<rparr>\<rparr>)
               \<and> reconstruct (P glob)
                    [map2 fl_add avg
                       (map (\<lambda>i. Fin (0 + s * c / real (length grad) * variates g i))
                          [drawn g..<drawn g + length (P glob)])]
                  = Inr [concat (map (\<lambda>p. elems (p_grad p)) m')])"
proof -
  from P_SGD_DP_run_any [OF sh] obtain avg st where
    avg: "length avg = length (P glob)"
    and run: "\<And>g. P_SGD_DP (glob\<lparr>default_generator := g\<rparr>) m opt grad s c =
          (case add_theta_noise g avg s c (length grad) of
             Inl e \<Rightarrow> Inl e
           | Inr (theta, gen') \<Rightarrow>
               (case matmul [theta] (P glob) of
                  Inl e \<Rightarrow> Inl e
                | Inr noisy \<Rightarrow>
                    (case update_grad m (concat noisy) of
                       Inl e \<Rightarrow> Inl e
                     | Inr m'' \<Rightarrow> Inr (st, opt m'', glob\<lparr>default_generator := gen'\<rparr>))))"
    by blast
  have n: "0 < length grad" using sh by (simp add: step_shapes_def)
  have "\<exists>m'. P_SGD_DP (glob\<lparr>default_generator := g\<rparr>) m opt grad s c =
                 Inr (st, opt m', glob\<lparr>default_generator := g\<lparr>drawn := drawn g + length (P glob)\<rparr>\<rparr>)
               \<and> reconstruct (P glob)
                    [map2 fl_add avg
                       (map (\<lambda>i. Fin (0 + s * c / real (length grad) * variates g i))
                          [drawn g..<drawn g + length (P glob)])]
                  = Inr [concat (map (\<lambda>p. elems (p_grad p)) m')]" for g
  proof -
    define theta where "theta = map2 fl_add avg
                  (map (\<lambda>i. Fin (0 + s * c / real (length grad) * variates g i))
                     [drawn g..<drawn g + length (P glob)])"
    have noise: "add_theta_noise g avg s c (length grad)
                 = Inr (theta, g\<lparr>drawn := drawn g + length (P glob)\<rparr>)"
      unfolding theta_def using add_theta_noise_ok [OF n nn, of g avg] by (simp add: avg)
    have lt: "length theta = length (P glob)" using avg by (simp add: theta_def)
    then have "list_all (\<lambda>a. length a = length (P glob)) [theta]" by simp
    from matmul_shape [OF this] obtain noisy where
      N: "matmul [theta] (P glob) = Inr noisy" and Nl: "length noisy = length [theta]"
      and Nr: "list_all (\<lambda>r. length r = ncols (P glob)) noisy" by blast
    from Nl obtain row where row: "noisy = [row]" by (cases noisy) simp_all
    then have "length (concat noisy) = param_count m"
      using Nr sh by (simp add: step_shapes_def)
    moreover have "wf_model m" using sh by (simp add: step_shapes_def)
    ultimately obtain m' where U: "update_grad m (concat noisy) = Inr m'"
      and V: "concat (map (\<lambda>p. elems (p_grad p)) m') = concat noisy"
      using update_grad_exact by blast
    have "P_SGD_DP (glob\<lparr>default_generator := g\<rparr>) m opt grad s c =
                 Inr (st, opt m', glob\<lparr>default_generator := g\<lparr>drawn := drawn g + length (P glob)\<rparr>\<rparr>)"
      unfolding run noise by (simp add: N U)
    moreover have "reconstruct (P glob) [theta] = Inr [concat (map (\<lambda>p. elems (p_grad p)) m')]"
      using N V row by (simp add: reconstruct_def)
    ultimately show ?thesis unfolding theta_def by blast
  qed
  then show ?thesis using avg by blast
qed

lemma P_SGD_DP_run:
  assumes sh: "step_shapes glob m grad"
  shows "\<exists>avg st. length avg = length (P glob) \<and>
          P_SGD_DP glob m opt grad s c =
          (case add_theta_noise (default_generator glob) avg s c (length grad) of
             Inl e \<Rightarrow> Inl e
           | Inr (theta, gen') \<Rightarrow>
               (case matmul [theta] (P glob) of
                  Inl e \<Rightarrow> Inl e
                | Inr noisy \<Rightarrow>
                    (case update_grad m (concat noisy) of
                       Inl e \<Rightarrow> Inl e
                     | Inr m'' \<Rightarrow> Inr (st, opt m'', glob\<lparr>default_generator := gen'\<rparr>))))"
proof -
  from P_SGD_DP_run_any [OF sh] obtain avg st where
    avg: "length avg = length (P glob)"
    and run: "\<And>g. P_SGD_DP (glob\<lparr>default_generator := g\<rparr>) m opt grad s c =
          (case add_theta_noise g avg s c (length grad) of
             Inl e \<Rightarrow> Inl e
           | Inr (theta, gen') \<Rightarrow>
               (case matmul [theta] (P glob) of
                  Inl e \<Rightarrow> Inl e
                | Inr noisy \<Rightarrow>
                    (case update_grad m (concat noisy) of
                       Inl e \<Rightarrow> Inl e
                     | Inr m'' \<Rightarrow> Inr (st, opt m'', glob\<lparr>default_generator := gen'\<rparr>))))"
    by blast
  have "glob\<lparr>default_generator := default_generator glob\<rparr> = glob" by simp
  then show ?thesis using avg run [of "default_generator glob"] by metis
qed

lemma P_SGD_DP_ok:
  assumes sh: "step_shapes glob m grad" and nn: "0 \<le> s * c"
  shows "\<exists>st m'. P_SGD_DP glob m opt grad s c =
           Inr (st, opt m',
                glob\<lparr>default_generator := (default_generator glob)
                   \<lparr>drawn := drawn (default_generator glob) + length (P glob)\<rparr>\<rparr>)"
proof -
  from P_SGD_DP_run [OF sh] obtain avg st where
    avg: "length avg = length (P glob)"
    and run: "P_SGD_DP glob m opt grad s c =
          (case add_theta_noise (default_generator glob) avg s c (length grad) of
             Inl e \<Rightarrow> Inl e
           | Inr (theta, gen') \<Rightarrow>
               (case matmul [theta] (P glob) of
                  Inl e \<Rightarrow> Inl e
                | Inr noisy \<Rightarrow>
                    (case update_grad m (concat noisy) of
                       Inl e \<Rightarrow> Inl e
                     | Inr m'' \<Rightarrow> Inr (st, opt m'', glob\<lparr>default_generator := gen'\<rparr>))))"
    by blast
  have n: "0 < length grad" using sh by (simp add: step_shapes_def)
  let ?gen = "default_generator glob"
  define theta where "theta = map2 fl_add avg
                  (map (\<lambda>i. Fin (0 + s * c / real (length grad) * variates ?gen i))
                     [drawn ?gen..<drawn ?gen + length avg])"
  have noise: "add_theta_noise ?gen avg s c (length grad)
               = Inr (theta, ?gen\<lparr>drawn := drawn ?gen + length avg\<rparr>)"
    unfolding theta_def by (rule add_theta_noise_ok [OF n nn])
  have lt: "length theta = length (P glob)" using avg by (simp add: theta_def)
  then have "list_all (\<lambda>a. length a = length (P glob)) [theta]" by simp
  from matmul_shape [OF this] obtain noisy where
    N: "matmul [theta] (P glob) = Inr noisy" and Nl: "length noisy = length [theta]"
    and Nr: "list_all (\<lambda>r. length r = ncols (P glob)) noisy" by blast
  from Nl obtain row where row: "noisy = [row]" by (cases noisy) simp_all
  then have "length (concat noisy) = param_count m"
    using Nr sh by (simp add: step_shapes_def)
  moreover have "wf_model m" using sh by (simp add: step_shapes_def)
  ultimately obtain m' where U: "update_grad m (concat noisy) = Inr m'"
    using update_grad_exact by blast
  show ?thesis
    unfolding run noise by (cases st) (auto simp add: N U avg)
qed

lemma P_SGD_DP_neg:
  assumes sh: "step_shapes glob m grad" and neg: "s * c < 0"
  shows "P_SGD_DP glob m opt grad s c = Inl RuntimeError"
proof -
  from P_SGD_DP_run [OF sh] obtain avg st where
    run: "P_SGD_DP glob m opt grad s c =
          (case add_theta_noise (default_generator glob) avg s c (length grad) of
             Inl e \<Rightarrow> Inl e
           | Inr (theta, gen') \<Rightarrow>
               (case matmul [theta] (P glob) of
                  Inl e \<Rightarrow> Inl e
                | Inr noisy \<Rightarrow>
                    (case update_grad m (concat noisy) of
                       Inl e \<Rightarrow> Inl e
                     | Inr m'' \<Rightarrow> Inr (st, opt m'', glob\<lparr>default_generator := gen'\<rparr>))))"
    by blast
  have n: "0 < length grad" using sh by (simp add: step_shapes_def)
  show ?thesis
    unfolding run by (simp add: add_theta_noise_neg [OF n neg])
qed

lemma get_model_grad_vec_concat:
  "m \<noteq> [] \<Longrightarrow> get_model_grad_vec m = Inr (concat (map (\<lambda>p. elems (p_grad p)) m))"
  by (simp add: get_model_grad_vec_def)

lemma model_ex_wf: "wf_model model_ex"
  by (simp add: model_ex_def wf_model_def wf_param_def wf_tensor_def numel_def)

lemma model_one_wf: "wf_model model_one"
  by (simp add: model_one_def wf_model_def wf_param_def wf_tensor_def numel_def)

lemmas step_eval =
  P_SGD_DP_def Let_def matmul_def mat_T_def ncols_def norm_dim1_def norms_stat_def
  torch_max_def torch_mean_def torch_median_def fl_max_def fl_sum_def fl_sqrt_def
  clip_column_def clamp_max_def sum_dim0_def add_theta_noise_def torch_normal_def
  update_grad_def numel_def signed_inf_def model_one_def glob_ex_def

section \<open>The claims\<close>

subsection \<open>C1: the step on an empty batch and on a non-positive clip bound\<close>

text \<open>
  C1 says that \<^verbatim>\<open>P_SGD_DP\<close> fails with EmptyBatch on an empty gradient batch, before
  a mean is computed, and with InvalidClipBound whenever the clip bound is at most zero,
  before any division. The code has neither check. At clip bound 0 (and noise multiplier
  1) the step on a one-row batch completes: the clipped embedding is zero and the model's
  gradient becomes zero. At clip bound -1 (and noise multiplier 0) it completes as well,
  and writes the gradient with its sign reversed.
\<close>

theorem C1_counterexample:
  "P_SGD_DP (glob_ex 0) model_one (\<lambda>m. m) [[Fin 2]] 1 0
   = Inr (([Fin 2, Fin 2, Fin 2], [Fin 0, Fin 0, Fin 0]),
          [\<lparr>p_name = ''w'',
             p_data = \<lparr>shape = [1], elems = [Fin 5]\<rparr>,
             p_grad = \<lparr>shape = [1], elems = [Fin 0]\<rparr>\<rparr>],
          \<lparr>P = [[Fin 1]], default_generator = \<lparr>variates = (\<lambda>i. 0), drawn = 1\<rparr>\<rparr>)
   \<and> P_SGD_DP (glob_ex 0) model_one (\<lambda>m. m) [[Fin 2]] 0 (- 1)
   = Inr (([Fin 2, Fin 2, Fin 2], [Fin 1, Fin 1, Fin 1]),
          [\<lparr>p_name = ''w'',
             p_data = \<lparr>shape = [1], elems = [Fin 5]\<rparr>,
             p_grad = \<lparr>shape = [1], elems = [Fin (- 1)]\<rparr>\<rparr>],
          \<lparr>P = [[Fin 1]], default_generator = \<lparr>variates = (\<lambda>i. 0), drawn = 1\<rparr>\<rparr>)"
  by (simp add: step_eval)

text \<open>
  C1 as the code has it: on an empty batch the step fails with the RuntimeError that
  \<^verbatim>\<open>torch.max\<close> raises on the empty vector of norms (line 383, after the projection
  and the means of lines 377 and 378). The clip bound is never checked: on arguments
  whose shapes fit, the step completes exactly when the product of noise multiplier and
  clip bound is not negative, and otherwise fails with the RuntimeError of
  \<^verbatim>\<open>torch.normal\<close>, which rejects a negative standard deviation (line 398, after the
  divisions of the clipping).
\<close>

theorem C1_step_failures:
  "P_SGD_DP glob m opt [] s c = Inl RuntimeError
   \<and> (step_shapes glob m grad \<longrightarrow>
        (if 0 \<le> s * c then (\<exists>r. P_SGD_DP glob m opt grad s c = Inr r)
         else P_SGD_DP glob m opt grad s c = Inl RuntimeError))"
proof (intro conjI impI)
  show "P_SGD_DP glob m opt [] s c = Inl RuntimeError" by (rule P_SGD_DP_empty)
next
  assume sh: "step_shapes glob m grad"
  show "if 0 \<le> s * c then (\<exists>r. P_SGD_DP glob m opt grad s c = Inr r)
        else P_SGD_DP glob m opt grad s c = Inl RuntimeError"
  proof (cases "0 \<le> s * c")
    case True
    from P_SGD_DP_ok [OF sh True] obtain st m' where
      "P_SGD_DP glob m opt grad s c =
         Inr (st, opt m',
              glob\<lparr>default_generator := (default_generator glob)
                 \<lparr>drawn := drawn (default_generator glob) + length (P glob)\<rparr>\<rparr>)"
      by blast
    then show ?thesis using True by simp
  next
    case False
    then have "s * c < 0" by simp
    from P_SGD_DP_neg [OF sh this] show ?thesis using False by simp
  qed
qed

theorem C1_witness:
  "step_shapes (glob_ex 3) model_one [[Fin 2]]
   \<and> P_SGD_DP (glob_ex 3) model_one (\<lambda>m. m) [] 1 (- 1) = Inl RuntimeError
   \<and> P_SGD_DP (glob_ex 3) model_one (\<lambda>m. m) [[Fin 2]] 1 (- 1) = Inl RuntimeError"
proof -
  have sh: "step_shapes (glob_ex 3) model_one [[Fin 2]]"
    by (simp add: step_shapes_def glob_ex_def ncols_def model_one_wf)
       (simp add: model_one_def param_count_def numel_def)
  show ?thesis
    using sh C1_step_failures [of "glob_ex 3" model_one "\<lambda>m. m" 1 "- 1" "[[Fin 2]]"]
    by simp
qed

subsection \<open>C2: inflating a vector of the wrong length\<close>

text \<open>
  C2 says that \<^verbatim>\<open>update_grad\<close> fails with ShapeMismatch on every vector whose length
  differs from the sum of the element counts of the declared parameter shapes, and never
  succeeds silently on a wrong length. The code compares no lengths: a vector of three
  elements is accepted by a model that declares two, and the third element is ignored.
\<close>

theorem C2_counterexample:
  "param_count [\<lparr>p_name = ''w'',
                  p_data = \<lparr>shape = [2], elems = [Fin 5, Fin 6]\<rparr>,
                  p_grad = \<lparr>shape = [2], elems = [Fin 0, Fin 0]\<rparr>\<rparr>] = 2
   \<and> length [Fin 1, Fin 2, Fin 3] = 3
   \<and> update_grad [\<lparr>p_name = ''w'',
                    p_data = \<lparr>shape = [2], elems = [Fin 5, Fin 6]\<rparr>,
                    p_grad = \<lparr>shape = [2], elems = [Fin 0, Fin 0]\<rparr>\<rparr>] [Fin 1, Fin 2, Fin 3]
     = Inr [\<lparr>p_name = ''w'',
              p_data = \<lparr>shape = [2], elems = [Fin 5, Fin 6]\<rparr>,
              p_grad = \<lparr>shape = [2], elems = [Fin 1, Fin 2]\<rparr>\<rparr>]"
  by (simp add: numel_def param_count_def update_grad_def Let_def)

text \<open>
  C2 as the code has it: on a well-formed model \<^verbatim>\<open>update_grad\<close> fails, with the
  RuntimeError of \<^verbatim>\<open>reshape\<close>, exactly on the vectors that are shorter than the
  declared element count; a vector that is long enough is accepted, and the gradients
  written are its first \<open>param_count m\<close> elements.
\<close>

theorem C2_update_grad_fails_iff_too_short:
  assumes "wf_model m"
  shows "if length v < param_count m
         then update_grad m v = Inl RuntimeError
         else (\<exists>m'. update_grad m v = Inr m' \<and>
                 concat (map (\<lambda>p. elems (p_grad p)) m') = take (param_count m) v)"
proof (cases "length v < param_count m")
  case True
  then have "length v < 0 + grad_count m"
    using assms by (simp add: wf_model_grad_count)
  then have "update_grad_loop m v 0 = Inl RuntimeError"
    by (intro update_grad_loop_short) simp_all
  then show ?thesis using True by (simp add: update_grad_def)
next
  case False
  then have "0 + grad_count m \<le> length v"
    using assms by (simp add: wf_model_grad_count)
  from update_grad_loop_long [OF this] obtain m' where
    "update_grad_loop m v 0 = Inr m'"
    "concat (map (\<lambda>p. elems (p_grad p)) m') = take (grad_count m) (drop 0 v)"
    by blast
  then show ?thesis using False assms
    by (simp add: update_grad_def wf_model_grad_count)
qed

theorem C2_witness:
  "wf_model model_ex \<and> update_grad model_ex [Fin 1, Fin 2] = Inl RuntimeError"
  using model_ex_wf C2_update_grad_fails_iff_too_short [OF model_ex_wf, of "[Fin 1, Fin 2]"]
  by (simp add: model_ex_def param_count_def numel_def)

subsection \<open>C3: clipping bounds every row\<close>

text \<open>
  C3: for every matrix of real numbers and every clip bound \<open>C > 0\<close>, both variants of
  \<^verbatim>\<open>clip_column\<close> turn every row into \<open>spec_clip_row C\<close> of it (a row whose norm is
  at most \<open>C\<close> is unchanged, a row whose norm exceeds \<open>C\<close> is scaled by \<open>C\<close> over its
  norm), and every resulting row has L2 norm at most \<open>C\<close>. The functional variant
  returns the result and leaves its argument as it was; the in-place variant returns
  nothing and leaves the result in its argument.
\<close>

theorem C3_clip_rows_bounded:
  assumes "0 < C"
  shows "clip_column (lift M) C False = (Some (lift (map (spec_clip_row C) M)), lift M)
       \<and> clip_column (lift M) C True = (None, lift (map (spec_clip_row C) M))
       \<and> list_all (\<lambda>r. l2norm r \<le> C) (map (spec_clip_row C) M)"
  using assms
  by (simp add: clip_column_functional_pos clip_column_inplace_pos list_all_iff spec_clip_row_norm)

theorem C3_witness:
  "(0::real) < 1
   \<and> clip_column [[Fin 2, Fin 0], [Fin 0, Fin 1]] 1 False
       = (Some [[Fin 1, Fin 0], [Fin 0, Fin 1]], [[Fin 2, Fin 0], [Fin 0, Fin 1]])
   \<and> clip_column [[Fin 2, Fin 0], [Fin 0, Fin 1]] 1 True
       = (None, [[Fin 1, Fin 0], [Fin 0, Fin 1]])
   \<and> l2norm [1, 0] \<le> 1 \<and> l2norm [0, 1] \<le> 1"
  using C3_clip_rows_bounded [of 1 "[[2, 0], [0, 1]]"]
  by (simp add: lift_def spec_clip_row_def l2norm_def)

subsection \<open>C4: a row of norm zero\<close>

text \<open>
  C4: for every matrix of real numbers with a row of L2 norm zero and every clip bound
  \<open>C > 0\<close>, \<^verbatim>\<open>clip_column\<close> (either variant) leaves that row unchanged, and no entry
  of the result is NaN or infinite. The functional variant gets there through the IEEE
  quotient \<open>C / 0 = +\<infinity>\<close>, which the clamp turns into 1.
\<close>

theorem C4_zero_row_unchanged:
  assumes "0 < C" and "i < length M" and "l2norm (M ! i) = 0"
  shows "the (fst (clip_column (lift M) C False)) ! i = map Fin (M ! i)
       \<and> snd (clip_column (lift M) C True) ! i = map Fin (M ! i)
       \<and> list_all (list_all is_finite) (the (fst (clip_column (lift M) C False)))
       \<and> list_all (list_all is_finite) (snd (clip_column (lift M) C True))"
proof -
  have z: "spec_clip_row C (M ! i) = M ! i"
    using assms by (simp add: spec_clip_row_def)
  have fin: "list_all (list_all is_finite) (lift N)" for N
    by (simp add: lift_def list_all_iff is_finite_def)
  show ?thesis
    using assms(2) z fin
    by (simp add: clip_column_functional_pos [OF assms(1)] clip_column_inplace_pos [OF assms(1)])
       (simp add: lift_def)
qed

theorem C4_witness:
  "(0::real) < 1 \<and> (1::nat) < length [[2, 0], [0, 0 :: real]] \<and> l2norm ([[2, 0], [0, 0]] ! 1) = 0
   \<and> the (fst (clip_column [[Fin 2, Fin 0], [Fin 0, Fin 0]] 1 False)) ! 1 = [Fin 0, Fin 0]
   \<and> snd (clip_column [[Fin 2, Fin 0], [Fin 0, Fin 0]] 1 True) ! 1 = [Fin 0, Fin 0]"
  using C4_zero_row_unchanged [of 1 1 "[[2, 0], [0, 0]]"]
  by (simp add: lift_def l2norm_def)

subsection \<open>C5: the noise and its source\<close>

text \<open>
  C5 says that the noise is Gaussian with mean 0 and standard deviation
  \<open>sigma * C / n\<close>, drawn from a random source provided to the step and not from an
  ambient generator. \<^verbatim>\<open>P_SGD_DP\<close> takes no random source: \<^verbatim>\<open>torch.normal\<close> is called
  without a generator and draws from the default generator of the process. Two calls
  with the same arguments, in global states that differ only in the default generator,
  write different gradients.
\<close>

theorem C5_counterexample:
  "P_SGD_DP (glob_ex 0) model_one (\<lambda>m. m) [[Fin 2]] 1 1
   = Inr (([Fin 2, Fin 2, Fin 2], [Fin 1, Fin 1, Fin 1]),
          [\<lparr>p_name = ''w'',
             p_data = \<lparr>shape = [1], elems = [Fin 5]\<rparr>,
             p_grad = \<lparr>shape = [1], elems = [Fin 1]\<rparr>\<rparr>],
          \<lparr>P = [[Fin 1]], default_generator = \<lparr>variates = (\<lambda>i. 0), drawn = 1\<rparr>\<rparr>)
   \<and> P_SGD_DP (glob_ex 3) model_one (\<lambda>m. m) [[Fin 2]] 1 1
   = Inr (([Fin 2, Fin 2, Fin 2], [Fin 1, Fin 1, Fin 1]),
          [\<lparr>p_name = ''w'',
             p_data = \<lparr>shape = [1], elems = [Fin 5]\<rparr>,
             p_grad = \<lparr>shape = [1], elems = [Fin 4]\<rparr>\<rparr>],
          \<lparr>P = [[Fin 1]], default_generator = \<lparr>variates = (\<lambda>i. 3), drawn = 1\<rparr>\<rparr>)"
  by (simp add: step_eval)

text \<open>
  C5 as the code has it: the noise added to the aggregate is, element by element,
  \<open>0 + (sigma * C / n) * z\<close> for the next standard normal variates \<open>z\<close> of the
  generator, one per element; and the generator of a step is the default generator of
  the global state. On fitting arguments there is an aggregate \<open>avg\<close> of k elements,
  the same for every state \<open>g\<close> of that generator, such that the step writes the
  reconstruction of \<open>avg\<close> plus that noise drawn from \<open>g\<close> into the gradients and
  leaves \<open>g\<close> advanced by k. That the variates are independent standard normal is the
  library's contract for its generator and is not proved here.
\<close>

theorem C5_noise_scale_and_source:
  "(0 < n \<and> 0 \<le> s * c \<longrightarrow>
      add_theta_noise gen theta s c n
      = Inr (map2 fl_add theta
               (map (\<lambda>i. Fin (0 + s * c / real n * variates gen i))
                  [drawn gen..<drawn gen + length theta]),
             gen\<lparr>drawn := drawn gen + length theta\<rparr>))
   \<and> (step_shapes glob m grad \<and> 0 \<le> s * c \<longrightarrow>
        (\<exists>avg st. length avg = length (P glob) \<and>
          (\<forall>g. \<exists>m'. P_SGD_DP (glob\<lparr>default_generator := g\<rparr>) m opt grad s c =
                 Inr (st, opt m', glob\<lparr>default_generator := g\<lparr>drawn := drawn g + length (P glob)\<rparr>\<rparr>)
               \<and> reconstruct (P glob)
                    [map2 fl_add avg
                       (map (\<lambda>i. Fin (0 + s * c / real (length grad) * variates g i))
                          [drawn g..<drawn g + length (P glob)])]
                  = Inr [concat (map (\<lambda>p. elems (p_grad p)) m')])))"
  using add_theta_noise_ok [of n s c gen theta] P_SGD_DP_noise [of glob m grad s c opt]
  by blast

theorem C5_witness:
  "(0::nat) < 2 \<and> (0::real) \<le> 1 * 4
   \<and> add_theta_noise \<lparr>variates = (\<lambda>i. 3), drawn = 5\<rparr> [Fin 1, Fin 0] 1 4 2
     = Inr ([Fin 7, Fin 6], \<lparr>variates = (\<lambda>i. 3), drawn = 7\<rparr>)"
  using C5_noise_scale_and_source
          [of 2 1 4 "\<lparr>variates = (\<lambda>i. 3), drawn = 5\<rparr>" "[Fin 1, Fin 0]"]
  by (simp add: upt_rec)

subsection \<open>C6: noise multiplier zero\<close>

text \<open>
  C6: with noise multiplier 0 the noise injection (lines 398 to 400, for a batch of
  \<open>n > 0\<close> rows) returns the aggregate unchanged, whatever its entries, and still
  draws from the generator. \<open>add_theta_noise\<close> has no case for a zero multiplier: the
  result is the general formula at standard deviation \<open>0 * clip / n = 0\<close>.
\<close>

theorem C6_zero_sigma_unchanged:
  assumes "0 < n"
  shows "add_theta_noise gen aggregate 0 clip n
         = Inr (aggregate, gen\<lparr>drawn := drawn gen + length aggregate\<rparr>)"
proof -
  have "add_theta_noise gen aggregate 0 clip n
        = Inr (map2 fl_add aggregate
                  (map (\<lambda>i. Fin (0 + 0 * clip / real n * variates gen i))
                     [drawn gen..<drawn gen + length aggregate]),
               gen\<lparr>drawn := drawn gen + length aggregate\<rparr>)"
    by (rule add_theta_noise_ok [OF assms]) simp
  then show ?thesis by (simp add: map2_fl_add_zero)
qed

theorem C6_witness:
  "(0::nat) < 2
   \<and> add_theta_noise \<lparr>variates = (\<lambda>i. 3), drawn = 5\<rparr> [Fin 1, NaN, PInf] 0 4 2
     = Inr ([Fin 1, NaN, PInf], \<lparr>variates = (\<lambda>i. 3), drawn = 8\<rparr>)"
  using C6_zero_sigma_unchanged [of 2 "\<lparr>variates = (\<lambda>i. 3), drawn = 5\<rparr>" "[Fin 1, NaN, PInf]" 4]
  by simp

subsection \<open>C7: projecting a reconstruction\<close>

text \<open>
  C7: for a basis of real numbers with orthonormal rows (k rows of d columns) and every
  k-vector \<open>w\<close>, projecting the reconstruction of \<open>w\<close>, that is \<open>(w P) P\<^sup>T\<close>, returns
  \<open>w\<close>; and for a d-vector \<open>v\<close>, reconstructing the projection of \<open>v\<close> returns \<open>v\<close>
  exactly when \<open>v\<close> is a combination of the rows of the basis.
\<close>

theorem C7_project_reconstruct:
  assumes rect: "list_all (\<lambda>r. length r = d) B" and ortho: "orthonormal_rows B"
  shows "(\<forall>w. length w = length B \<longrightarrow>
            (case reconstruct (lift B) [map Fin w] of
               Inl e \<Rightarrow> Inl e | Inr r \<Rightarrow> project (lift B) r) = Inr [map Fin w])
       \<and> (\<forall>v. B \<noteq> [] \<and> length v = d \<longrightarrow>
            ((case project (lift B) [map Fin v] of
                Inl e \<Rightarrow> Inl e | Inr e \<Rightarrow> reconstruct (lift B) e) = Inr [map Fin v])
            = (\<exists>w. length w = length B \<and> reconstruct (lift B) [map Fin w] = Inr [map Fin v]))"
proof (intro conjI allI impI)
  fix w :: "real list" assume w: "length w = length B"
  show "(case reconstruct (lift B) [map Fin w] of
           Inl e \<Rightarrow> Inl e | Inr r \<Rightarrow> project (lift B) r) = Inr [map Fin w]"
  proof (cases "B = []")
    case True
    then show ?thesis using w
      by (simp add: reconstruct_def project_def matmul_def lift_def mat_T_def ncols_def)
  next
    case False
    show ?thesis
      using matmul_row [OF w rect False] project_reconstruct_row [OF rect ortho False w]
      by (simp add: reconstruct_def project_def)
  qed
next
  fix v :: "real list" assume v: "B \<noteq> [] \<and> length v = d"
  then have ne: "B \<noteq> []" and lv: "length v = d" by simp_all
  have d: "0 < d" by (rule ortho_width [OF rect ortho ne])
  let ?e = "map (\<lambda>i. \<Sum>j<d. v ! j * B ! i ! j) [0..<length B]"
  have le: "length ?e = length B" by simp
  have pr: "project (lift B) [map Fin v] = Inr [map Fin ?e]"
    using project_row [OF rect ne d lv] by (simp add: project_def)
  show "((case project (lift B) [map Fin v] of
            Inl e \<Rightarrow> Inl e | Inr e \<Rightarrow> reconstruct (lift B) e) = Inr [map Fin v])
        = (\<exists>w. length w = length B \<and> reconstruct (lift B) [map Fin w] = Inr [map Fin v])"
  proof
    assume "(case project (lift B) [map Fin v] of
               Inl e \<Rightarrow> Inl e | Inr e \<Rightarrow> reconstruct (lift B) e) = Inr [map Fin v]"
    then have "reconstruct (lift B) [map Fin ?e] = Inr [map Fin v]" by (simp add: pr)
    then show "\<exists>w. length w = length B \<and> reconstruct (lift B) [map Fin w] = Inr [map Fin v]"
      using le by blast
  next
    assume "\<exists>w. length w = length B \<and> reconstruct (lift B) [map Fin w] = Inr [map Fin v]"
    then obtain w where w: "length w = length B"
      and r: "reconstruct (lift B) [map Fin w] = Inr [map Fin v]" by blast
    have "map Fin (vecmat w B d) = map Fin v"
      using r matmul_row [OF w rect ne] by (simp add: reconstruct_def)
    then have vw: "v = vecmat w B d" using Fin_inj by metis
    have "project (lift B) [map Fin v] = Inr [map Fin w]"
      using project_reconstruct_row [OF rect ortho ne w] vw by (simp add: project_def)
    then show "(case project (lift B) [map Fin v] of
               Inl e \<Rightarrow> Inl e | Inr e \<Rightarrow> reconstruct (lift B) e) = Inr [map Fin v]"
      using r by simp
  qed
qed

text \<open>
  The basis with the single row \<open>(1, 0)\<close>: the 1-vector \<open>(3)\<close> reconstructs to
  \<open>(3, 0)\<close> and projects back to \<open>(3)\<close>.
\<close>

theorem C7_witness:
  "list_all (\<lambda>r. length r = 2) [[1, 0 :: real]] \<and> orthonormal_rows [[1, 0]]
   \<and> length [3 :: real] = length [[1, 0 :: real]]
   \<and> reconstruct [[Fin 1, Fin 0]] [[Fin 3]] = Inr [[Fin 3, Fin 0]]
   \<and> project [[Fin 1, Fin 0]] [[Fin 3, Fin 0]] = Inr [[Fin 3]]"
proof -
  have rect: "list_all (\<lambda>r. length r = 2) [[1, 0 :: real]]" by simp
  have ortho: "orthonormal_rows [[1, 0]]" by (simp add: orthonormal_rows_def rdot_def)
  have rec: "reconstruct [[Fin 1, Fin 0]] [[Fin 3]] = Inr [[Fin 3, Fin 0]]"
    by (simp add: reconstruct_def matmul_def ncols_def fl_sum_def upt_rec)
  have "\<forall>w. length w = length [[1, 0 :: real]] \<longrightarrow>
            (case reconstruct (lift [[1, 0]]) [map Fin w] of
               Inl e \<Rightarrow> Inl e | Inr r \<Rightarrow> project (lift [[1, 0]]) r) = Inr [map Fin w]"
    using C7_project_reconstruct [OF rect ortho] by (rule conjunct1)
  then have "length [3 :: real] = length [[1, 0 :: real]] \<longrightarrow>
            (case reconstruct (lift [[1, 0]]) [map Fin [3]] of
               Inl e \<Rightarrow> Inl e | Inr r \<Rightarrow> project (lift [[1, 0]]) r) = Inr [map Fin [3]]"
    by (rule spec)
  then have "(case reconstruct (lift [[1, 0]]) [map Fin [3]] of
           Inl e \<Rightarrow> Inl e | Inr r \<Rightarrow> project (lift [[1, 0]]) r) = Inr [map Fin [3]]"
    by simp
  then have "project [[Fin 1, Fin 0]] [[Fin 3, Fin 0]] = Inr [[Fin 3]]"
    using rec by (simp add: lift_def)
  then show ?thesis using rect ortho rec by simp
qed

subsection \<open>C8: flattening, then inflating\<close>

text \<open>
  C8 says that for every model parameter collection, \<^verbatim>\<open>get_model_param_vec\<close>
  followed by \<^verbatim>\<open>update_param\<close> on the resulting vector reproduces the parameter
  values. The resulting vector is a numpy array, and \<^verbatim>\<open>update_param\<close> cannot store
  it: the assignment to \<^verbatim>\<open>param.data\<close> raises TypeError at the first parameter. On
  the collection with no parameter the flattening itself fails: \<^verbatim>\<open>np.concatenate\<close>
  raises ValueError on an empty list.
\<close>

theorem C8_counterexample:
  "get_model_param_vec model_ex = Inr (NdArray [Fin 5, Fin 6, Fin 7])
   \<and> update_param model_ex (NdArray [Fin 5, Fin 6, Fin 7]) = Inl TypeError
   \<and> get_model_param_vec [] = Inl ValueError"
  by (simp add: model_ex_def get_model_param_vec_def update_param_def numel_def Let_def scalars_def)

text \<open>
  C8 as the code has it: for every well-formed model with at least one parameter,
  \<^verbatim>\<open>get_model_param_vec\<close> returns the \<open>param_count m\<close> values of the parameters as
  one numpy array; \<^verbatim>\<open>update_param\<close> rejects that array with TypeError; and on the
  same values held in a torch tensor \<^verbatim>\<open>update_param\<close> gives back the model exactly.
  In general \<^verbatim>\<open>update_param\<close> cuts a torch tensor into consecutive chunks, the chunk
  of a parameter holding \<open>numel\<close> of its shape elements, in the order of
  \<^verbatim>\<open>named_parameters\<close>, and stores every chunk under the shape of its parameter.
\<close>

theorem C8_flatten_then_inflate:
  assumes "wf_model m" and "m \<noteq> []"
  shows "(\<exists>v. get_model_param_vec m = Inr (NdArray v) \<and> length v = param_count m
            \<and> update_param m (NdArray v) = Inl TypeError
            \<and> update_param m (TorchTensor v) = Inr m)
       \<and> (\<forall>cs. list_all2 (\<lambda>p c. length c = numel (shape (p_data p))) m cs \<longrightarrow>
             update_param m (TorchTensor (concat cs))
             = Inr (map2 (\<lambda>p c. p\<lparr>p_data := \<lparr>shape = shape (p_data p), elems = c\<rparr>\<rparr>) m cs))"
proof (intro conjI allI impI)
  let ?v = "concat (map (\<lambda>p. elems (p_data p)) m)"
  have wf: "list_all (\<lambda>p. wf_tensor (p_data p)) m"
    using assms(1) by (induction m) (simp_all add: wf_model_def wf_param_def)
  have up: "update_param m (TorchTensor ?v) = Inr m"
    using update_param_loop_concat [OF wf] by (simp add: update_param_def)
  have len: "length ?v = param_count m"
    using assms(1)
    by (induction m) (simp_all add: wf_model_def wf_param_def wf_tensor_def param_count_def)
  have nd: "update_param m (NdArray ?v) = Inl TypeError"
    by (rule update_param_ndarray [OF assms(2)]) (simp add: len)
  have "get_model_param_vec m = Inr (NdArray ?v)"
    using assms(2) by (simp add: get_model_param_vec_def)
  then show "\<exists>v. get_model_param_vec m = Inr (NdArray v) \<and> length v = param_count m
            \<and> update_param m (NdArray v) = Inl TypeError
            \<and> update_param m (TorchTensor v) = Inr m"
    using up len nd by blast
next
  fix cs :: "fl list list" assume "list_all2 (\<lambda>p c. length c = numel (shape (p_data p))) m cs"
  from update_param_loop_chunks [OF this, of "[]" "[]"]
  show "update_param m (TorchTensor (concat cs))
        = Inr (map2 (\<lambda>p c. p\<lparr>p_data := \<lparr>shape = shape (p_data p), elems = c\<rparr>\<rparr>) m cs)"
    by (simp add: update_param_def)
qed

theorem C8_witness:
  "wf_model model_ex \<and> model_ex \<noteq> []
   \<and> get_model_param_vec model_ex = Inr (NdArray [Fin 5, Fin 6, Fin 7])
   \<and> update_param model_ex (TorchTensor [Fin 5, Fin 6, Fin 7]) = Inr model_ex"
proof -
  have ne: "model_ex \<noteq> []" by (simp add: model_ex_def)
  have flat: "get_model_param_vec model_ex = Inr (NdArray [Fin 5, Fin 6, Fin 7])"
    by (simp add: model_ex_def get_model_param_vec_def)
  from C8_flatten_then_inflate [OF model_ex_wf ne, THEN conjunct1] obtain v where
    "get_model_param_vec model_ex = Inr (NdArray v)"
    and "update_param model_ex (TorchTensor v) = Inr model_ex"
    by blast
  then have "update_param model_ex (TorchTensor [Fin 5, Fin 6, Fin 7]) = Inr model_ex"
    using flat by simp
  then show ?thesis using model_ex_wf ne flat by simp
qed

subsection \<open>C9: the two clipping variants\<close>




subsection \<open>C10: inflating, then flattening\<close>

text \<open>
  C10 says that for every vector whose length is the model's element count,
  \<^verbatim>\<open>update_grad\<close> followed by \<^verbatim>\<open>get_model_grad_vec\<close> returns the vector. On the
  model with no parameter the empty vector has the right length and is inflated, but the
  flattening fails: \<^verbatim>\<open>torch.cat\<close> raises RuntimeError on an empty list.
\<close>

theorem C10_counterexample:
  "wf_model [] \<and> length ([] :: fl list) = param_count [] \<and> update_grad [] [] = Inr []
   \<and> get_model_grad_vec [] = Inl RuntimeError"
  by (simp add: wf_model_def param_count_def update_grad_def get_model_grad_vec_def)

text \<open>
  C10 as the code has it: for every well-formed model with at least one parameter and
  every vector \<open>v\<close> of \<open>param_count m\<close> elements, \<^verbatim>\<open>update_grad\<close> succeeds and
  \<^verbatim>\<open>get_model_grad_vec\<close> of the updated model returns exactly \<open>v\<close>.
\<close>

theorem C10_inflate_then_flatten:
  assumes "wf_model m" and "m \<noteq> []" and "length v = param_count m"
  shows "\<exists>m'. update_grad m v = Inr m' \<and> get_model_grad_vec m' = Inr v"
proof -
  have "0 + grad_count m \<le> length v"
    using assms by (simp add: wf_model_grad_count)
  from update_grad_loop_long [OF this] obtain m' where
    m': "update_grad_loop m v 0 = Inr m'" "length m' = length m"
    "concat (map (\<lambda>p. elems (p_grad p)) m') = take (grad_count m) (drop 0 v)"
    by blast
  have ne: "m' \<noteq> []" using m'(2) assms(2) by auto
  have "concat (map (\<lambda>p. elems (p_grad p)) m') = v"
    using m'(3) assms by (simp add: wf_model_grad_count)
  then have "get_model_grad_vec m' = Inr v"
    using get_model_grad_vec_concat [OF ne] by simp
  then show ?thesis using m'(1) by (simp add: update_grad_def)
qed

theorem C10_witness:
  "wf_model model_ex \<and> model_ex \<noteq> [] \<and> length [Fin 1, Fin 2, Fin 3] = param_count model_ex
   \<and> update_grad model_ex [Fin 1, Fin 2, Fin 3]
     = Inr [\<lparr>p_name = ''weight'',
              p_data = \<lparr>shape = [1, 2], elems = [Fin 5, Fin 6]\<rparr>,
              p_grad = \<lparr>shape = [1, 2], elems = [Fin 1, Fin 2]\<rparr>\<rparr>,
            \<lparr>p_name = ''bias'',
              p_data = \<lparr>shape = [1], elems = [Fin 7]\<rparr>,
              p_grad = \<lparr>shape = [1], elems = [Fin 3]\<rparr>\<rparr>]
   \<and> get_model_grad_vec
       [\<lparr>p_name = ''weight'',
          p_data = \<lparr>shape = [1, 2], elems = [Fin 5, Fin 6]\<rparr>,
          p_grad = \<lparr>shape = [1, 2], elems = [Fin 1, Fin 2]\<rparr>\<rparr>,
        \<lparr>p_name = ''bias'',
          p_data = \<lparr>shape = [1], elems = [Fin 7]\<rparr>,
          p_grad = \<lparr>shape = [1], elems = [Fin 3]\<rparr>\<rparr>]
     = Inr [Fin 1, Fin 2, Fin 3]"
proof -
  have ne: "model_ex \<noteq> []" by (simp add: model_ex_def)
  have len: "length [Fin 1, Fin 2, Fin 3] = param_count model_ex"
    by (simp add: model_ex_def param_count_def numel_def)
  have up: "update_grad model_ex [Fin 1, Fin 2, Fin 3]
     = Inr [\<lparr>p_name = ''weight'',
              p_data = \<lparr>shape = [1, 2], elems = [Fin 5, Fin 6]\<rparr>,
              p_grad = \<lparr>shape = [1, 2], elems = [Fin 1, Fin 2]\<rparr>\<rparr>,
            \<lparr>p_name = ''bias'',
              p_data = \<lparr>shape = [1], elems = [Fin 7]\<rparr>,
              p_grad = \<lparr>shape = [1], elems = [Fin 3]\<rparr>\<rparr>]"
    by (simp add: model_ex_def update_grad_def numel_def Let_def)
  from C10_inflate_then_flatten [OF model_ex_wf ne len] obtain m' where
    "update_grad model_ex [Fin 1, Fin 2, Fin 3] = Inr m'"
    and "get_model_grad_vec m' = Inr [Fin 1, Fin 2, Fin 3]"
    by blast
  then show ?thesis using model_ex_wf ne len up by simp
qed

end
